theory Spec2Isabelle
  imports Main "HOL-Library.Sublist" "HOL-Library.Char_ord" "HOL-Library.List_Lexorder"
begin

section \<open>Roles and the role store\<close>

text \<open>
  The schema's enum \<open>app_role\<close> (\<open>CREATE TYPE public.app_role AS ENUM ('admin', 'gestor',
  'visualizador')\<close>) and the table \<open>user_roles\<close>. Identifiers (UUIDs) are strings, as the
  client sees them.
\<close>

type_synonym uuid = string
type_synonym timestamp = nat

datatype app_role = Admin | Gestor | Visualizador

record user_role_row =
  ur_id :: uuid
  ur_user_id :: uuid
  ur_role :: app_role
  ur_created_at :: timestamp

text \<open>
  \<open>has_role(_user_id, _role)\<close>:
  \<open>SELECT EXISTS (SELECT 1 FROM public.user_roles WHERE user_id = _user_id AND role = _role)\<close>.
\<close>

definition has_role :: "user_role_row list \<Rightarrow> uuid \<Rightarrow> app_role \<Rightarrow> bool" where
  "has_role user_roles uid r =
     list_ex (\<lambda>x. ur_user_id x = uid \<and> ur_role x = r) user_roles"

text \<open>
  \<open>get_user_role(_user_id)\<close>: \<open>SELECT role FROM public.user_roles WHERE user_id = _user_id
  LIMIT 1\<close>. The query's result set is \<open>get_user_role_rows\<close>; the scalar function returns
  its first row, or NULL (\<open>None\<close>) when the set is empty. No ORDER BY is given: the model
  takes the rows in table order.
\<close>

definition get_user_role_rows :: "user_role_row list \<Rightarrow> uuid \<Rightarrow> app_role list" where
  "get_user_role_rows user_roles uid =
     take 1 (map ur_role (filter (\<lambda>x. ur_user_id x = uid) user_roles))"

definition get_user_role :: "user_role_row list \<Rightarrow> uuid \<Rightarrow> app_role option" where
  "get_user_role user_roles uid =
     (case get_user_role_rows user_roles uid of [] \<Rightarrow> None | r # _ \<Rightarrow> Some r)"

section \<open>Row-level security policies\<close>

text \<open>
  Every table of the schema has row-level security enabled; the policies are the
  \<open>CREATE POLICY\<close> statements of the migration, all of them permissive and all of them
  \<open>TO authenticated\<close>. A policy's condition (\<open>USING\<close> or \<open>WITH CHECK\<close>) is an expression
  over the session's \<open>auth.uid()\<close>, the role store and the row.
\<close>

datatype table =
    Profiles | User_roles | Suppliers | Contracts | Documents | Obligations | Payments
  | Audit_logs | Notification_settings | Storage_objects

datatype command = SELECT | INSERT | UPDATE | DELETE

datatype expr =
    Const_true
  | Has_role app_role
  | Uid_is_user_id
  | Bucket_is string
  | Or expr expr
  | And expr expr

datatype policy =
  Policy (pol_name: string) (pol_table: table) (pol_command: command) (pol_expr: expr)

text \<open>The columns of a row that the policy expressions read.\<close>

record rls_row =
  row_user_id :: "uuid option"
  row_bucket_id :: string

datatype actor = Anon | Authenticated uuid

fun eval_expr :: "user_role_row list \<Rightarrow> uuid \<Rightarrow> rls_row \<Rightarrow> expr \<Rightarrow> bool" where
  "eval_expr urs uid row Const_true = True"
| "eval_expr urs uid row (Has_role r) = has_role urs uid r"
| "eval_expr urs uid row Uid_is_user_id = (row_user_id row = Some uid)"
| "eval_expr urs uid row (Bucket_is b) = (row_bucket_id row = b)"
| "eval_expr urs uid row (Or a b) = (eval_expr urs uid row a \<or> eval_expr urs uid row b)"
| "eval_expr urs uid row (And a b) = (eval_expr urs uid row a \<and> eval_expr urs uid row b)"

definition admin_or_gestor :: expr where
  "admin_or_gestor = Or (Has_role Admin) (Has_role Gestor)"

definition policies :: "policy list" where
  "policies =
   [ Policy ''Users can view all profiles'' Profiles SELECT Const_true,
     Policy ''Users can update own profile'' Profiles UPDATE Uid_is_user_id,

     Policy ''Users can view roles'' User_roles SELECT Const_true,
     Policy ''Admins can insert roles'' User_roles INSERT (Has_role Admin),
     Policy ''Admins can update roles'' User_roles UPDATE (Has_role Admin),
     Policy ''Admins can delete roles'' User_roles DELETE (Has_role Admin),

     Policy ''Authenticated users can view suppliers'' Suppliers SELECT Const_true,
     Policy ''Admins and gestors can insert suppliers'' Suppliers INSERT admin_or_gestor,
     Policy ''Admins and gestors can update suppliers'' Suppliers UPDATE admin_or_gestor,
     Policy ''Admins can delete suppliers'' Suppliers DELETE (Has_role Admin),

     Policy ''Authenticated users can view contracts'' Contracts SELECT Const_true,
     Policy ''Admins and gestors can insert contracts'' Contracts INSERT admin_or_gestor,
     Policy ''Admins and gestors can update contracts'' Contracts UPDATE admin_or_gestor,
     Policy ''Admins can delete contracts'' Contracts DELETE (Has_role Admin),

     Policy ''Authenticated users can view documents'' Documents SELECT Const_true,
     Policy ''Admins and gestors can insert documents'' Documents INSERT admin_or_gestor,
     Policy ''Admins and gestors can update documents'' Documents UPDATE admin_or_gestor,
     Policy ''Admins can delete documents'' Documents DELETE (Has_role Admin),

     Policy ''Authenticated users can view obligations'' Obligations SELECT Const_true,
     Policy ''Admins and gestors can insert obligations'' Obligations INSERT admin_or_gestor,
     Policy ''Admins and gestors can update obligations'' Obligations UPDATE admin_or_gestor,
     Policy ''Admins can delete obligations'' Obligations DELETE (Has_role Admin),

     Policy ''Authenticated users can view payments'' Payments SELECT Const_true,
     Policy ''Admins and gestors can insert payments'' Payments INSERT admin_or_gestor,
     Policy ''Admins and gestors can update payments'' Payments UPDATE admin_or_gestor,
     Policy ''Admins can delete payments'' Payments DELETE (Has_role Admin),

     Policy ''Admins can view audit logs'' Audit_logs SELECT (Has_role Admin),
     Policy ''System can insert audit logs'' Audit_logs INSERT Const_true,

     Policy ''Users can view own notification settings'' Notification_settings SELECT
       Uid_is_user_id,
     Policy ''Users can update own notification settings'' Notification_settings UPDATE
       Uid_is_user_id,
     Policy ''Users can insert own notification settings'' Notification_settings INSERT
       Uid_is_user_id,

     Policy ''Authenticated users can view documents'' Storage_objects SELECT
       (Bucket_is ''contracts-documents''),
     Policy ''Admins and gestors can upload documents'' Storage_objects INSERT
       (And (Bucket_is ''contracts-documents'') admin_or_gestor),
     Policy ''Admins can delete documents'' Storage_objects DELETE
       (And (Bucket_is ''contracts-documents'') (Has_role Admin)) ]"

text \<open>
  With row-level security enabled, a command on a row is allowed when some policy of that
  table and command holds; with no such policy it is denied. The policies are granted to
  the role \<open>authenticated\<close> only, so an anonymous session has none.
\<close>

definition applicable :: "table \<Rightarrow> command \<Rightarrow> policy list" where
  "applicable tbl cmd = filter (\<lambda>p. pol_table p = tbl \<and> pol_command p = cmd) policies"

fun rls_allows :: "user_role_row list \<Rightarrow> actor \<Rightarrow> table \<Rightarrow> command \<Rightarrow> rls_row \<Rightarrow> bool" where
  "rls_allows urs Anon tbl cmd row = False"
| "rls_allows urs (Authenticated uid) tbl cmd row =
     list_ex (\<lambda>p. eval_expr urs uid row (pol_expr p)) (applicable tbl cmd)"

subsection \<open>The policy matrix as the specification tabulates it\<close>

text \<open>
  The matrix of the specification: for each table and operation, who may perform it.
  \<open>Nobody\<close> is the matrix's dash (no policy). The last row of the matrix, "document
  binary storage", is the storage objects of the bucket \<open>contracts-documents\<close>.
\<close>

datatype requirement = Any_authenticated | Admin_only | Admin_or_gestor | Owner_only | Nobody

fun policy_matrix :: "table \<Rightarrow> command \<Rightarrow> requirement" where
  "policy_matrix Profiles SELECT = Any_authenticated"
| "policy_matrix Profiles INSERT = Nobody"
| "policy_matrix Profiles UPDATE = Owner_only"
| "policy_matrix Profiles DELETE = Nobody"
| "policy_matrix User_roles SELECT = Any_authenticated"
| "policy_matrix User_roles _ = Admin_only"
| "policy_matrix Audit_logs SELECT = Admin_only"
| "policy_matrix Audit_logs INSERT = Any_authenticated"
| "policy_matrix Audit_logs _ = Nobody"
| "policy_matrix Notification_settings DELETE = Nobody"
| "policy_matrix Notification_settings _ = Owner_only"
| "policy_matrix Storage_objects SELECT = Any_authenticated"
| "policy_matrix Storage_objects INSERT = Admin_or_gestor"
| "policy_matrix Storage_objects UPDATE = Nobody"
| "policy_matrix Storage_objects DELETE = Admin_only"
| "policy_matrix _ SELECT = Any_authenticated"
| "policy_matrix _ INSERT = Admin_or_gestor"
| "policy_matrix _ UPDATE = Admin_or_gestor"
| "policy_matrix _ DELETE = Admin_only"

text \<open>The roles an actor holds: the roles of its rows in the role store.\<close>

definition roles_of :: "user_role_row list \<Rightarrow> uuid \<Rightarrow> app_role set" where
  "roles_of urs uid = ur_role ` {x \<in> set urs. ur_user_id x = uid}"

fun meets :: "app_role set \<Rightarrow> bool \<Rightarrow> requirement \<Rightarrow> bool" where
  "meets rs owner Any_authenticated = True"
| "meets rs owner Admin_only = (Admin \<in> rs)"
| "meets rs owner Admin_or_gestor = (Admin \<in> rs \<or> Gestor \<in> rs)"
| "meets rs owner Owner_only = owner"
| "meets rs owner Nobody = False"

text \<open>The domain tables of the specification's glossary.\<close>

definition domain_tables :: "table list" where
  "domain_tables = [Suppliers, Contracts, Documents, Obligations, Payments]"

text \<open>
  The roles that are allowed a command on a table: a role \<open>r\<close> is allowed when an actor
  whose only role is \<open>r\<close> is.
\<close>

definition single_role :: "uuid \<Rightarrow> app_role \<Rightarrow> user_role_row list" where
  "single_role uid r = [\<lparr>ur_id = ''r'', ur_user_id = uid, ur_role = r, ur_created_at = 0\<rparr>]"

definition no_row :: rls_row where
  "no_row = \<lparr>row_user_id = None, row_bucket_id = ''''\<rparr>"

definition allowed_roles :: "table \<Rightarrow> command \<Rightarrow> app_role list" where
  "allowed_roles tbl cmd =
     filter (\<lambda>r. rls_allows (single_role ''u'' r) (Authenticated ''u'') tbl cmd no_row)
       [Admin, Gestor, Visualizador]"

section \<open>Capabilities and the role resolver\<close>

text \<open>
  Modelled from the spec: the capability flags \<open>canEdit\<close> and \<open>isAdmin\<close> of the
  authentication context (\<open>contexts/AuthContext\<close>), which the pages read through \<open>useAuth\<close>
  and whose definition is not among the sources. The specification: "\<open>canEdit = role \<in>
  {admin, gestor}\<close>. \<open>isAdmin = role = admin\<close>."
\<close>

definition canEdit :: "app_role \<Rightarrow> bool" where
  "canEdit role = (role \<in> {Admin, Gestor})"

definition isAdmin :: "app_role \<Rightarrow> bool" where
  "isAdmin role = (role = Admin)"

text \<open>A failed backend call: the client sees an error object with a message.\<close>

datatype backend_error = Backend_error (err_message: string)

text \<open>
  Modelled from the spec: the session's role resolver of the authentication context, not
  among the sources. The specification: "given an authenticated actor id, resolve at most
  one Role by querying the role store; default to visualizador if no role row exists",
  and "resolution query failure: treat as no role known; the UI must fail closed". The
  query is the backend's \<open>get_user_role\<close>; \<open>failure\<close> is the error of the query, if any.
\<close>

definition resolve_role :: "backend_error option \<Rightarrow> user_role_row list \<Rightarrow> uuid \<Rightarrow> app_role" where
  "resolve_role failure user_roles uid =
     (case failure of
        Some e \<Rightarrow> Visualizador
      | None \<Rightarrow> (case get_user_role user_roles uid of None \<Rightarrow> Visualizador | Some r \<Rightarrow> r))"

section \<open>Tables\<close>

text \<open>
  The rows of the tables that the modelled operations read or write, column by column.
  A nullable column is an \<open>option\<close>. JSONB values are kept as opaque strings.
\<close>

record profile_row =
  p_id :: uuid
  p_user_id :: uuid
  p_full_name :: string
  p_email :: string
  p_avatar_url :: "string option"
  p_department :: "string option"
  p_phone :: "string option"
  p_created_at :: timestamp
  p_updated_at :: timestamp

record notification_settings_row =
  ns_id :: uuid
  ns_user_id :: uuid
  ns_email_enabled :: "bool option"
  ns_days_before_expiry :: "int list option"
  ns_weekly_summary :: "bool option"
  ns_created_at :: timestamp
  ns_updated_at :: timestamp

record document_row =
  d_id :: uuid
  d_contract_id :: uuid
  d_file_name :: string
  d_file_path :: string
  d_file_type :: "string option"
  d_file_size :: "int option"
  d_extracted_data :: "string option"
  d_uploaded_by :: "uuid option"
  d_created_at :: timestamp

text \<open>
  An audit entry as the client holds it (interface \<open>AuditLog\<close>): the columns of
  \<open>audit_logs\<close> and the optional \<open>user_name\<close>, which rows coming from the table do not
  have.
\<close>

record AuditLog =
  al_id :: uuid
  al_action :: string
  al_table_name :: string
  al_record_id :: "uuid option"
  al_user_id :: "uuid option"
  al_old_data :: "string option"
  al_new_data :: "string option"
  al_ip_address :: "string option"
  al_created_at :: timestamp
  al_user_name :: "string option"

text \<open>
  The rows of \<open>suppliers\<close>, \<open>contracts\<close>, \<open>obligations\<close> and \<open>payments\<close> are kept as the
  client sends and receives them: JSON objects, a list of column names with their
  values. A number is a decimal: \<open>Number m k\<close> is \<open>m / 10 ^ k\<close>.
\<close>

datatype json = Null | String string | Bool bool | Number int nat | Object "(string \<times> json) list"

type_synonym row = "(string \<times> json) list"

text \<open>
  The backend's state: the tables, and the paths of the objects stored in the bucket
  \<open>contracts-documents\<close>.
\<close>

record database =
  db_profiles :: "profile_row list"
  db_user_roles :: "user_role_row list"
  db_notification_settings :: "notification_settings_row list"
  db_documents :: "document_row list"
  db_audit_logs :: "AuditLog list"
  db_storage :: "string list"
  db_suppliers :: "row list"
  db_contracts :: "row list"
  db_obligations :: "row list"
  db_payments :: "row list"

section \<open>Signup provisioning\<close>

text \<open>
  The trigger function \<open>handle_new_user\<close> runs after an insert on \<open>auth.users\<close>, with
  \<open>NEW\<close> the inserted identity: its id, its email and the \<open>full_name\<close> entry of its
  metadata (\<open>raw_user_meta_data->>'full_name'\<close>, NULL when absent). The values that the
  column defaults generate (\<open>gen_random_uuid()\<close>, \<open>now()\<close>) are supplied by the
  environment. The function is \<open>SECURITY DEFINER\<close>, so no policy applies to its inserts;
  the primary-key and \<open>UNIQUE\<close> constraints of the three tables do.
\<close>

record auth_user =
  au_id :: uuid
  au_email :: string
  au_full_name :: "string option"

record generated =
  g_profile_id :: uuid
  g_role_id :: uuid
  g_settings_id :: uuid
  g_now :: timestamp

definition unique_violation :: backend_error where
  "unique_violation = Backend_error ''duplicate key value violates unique constraint''"

text \<open>\<open>profiles\<close>: \<open>id\<close> is the primary key, \<open>user_id\<close> is \<open>UNIQUE\<close>.\<close>

definition insert_profile :: "profile_row \<Rightarrow> profile_row list \<Rightarrow> backend_error + profile_row list" where
  "insert_profile new rows =
     (if list_ex (\<lambda>x. p_id x = p_id new \<or> p_user_id x = p_user_id new) rows
      then Inl unique_violation else Inr (rows @ [new]))"

text \<open>\<open>user_roles\<close>: \<open>id\<close> is the primary key, \<open>UNIQUE (user_id, role)\<close>.\<close>

definition insert_user_role :: "user_role_row \<Rightarrow> user_role_row list \<Rightarrow> backend_error + user_role_row list" where
  "insert_user_role new rows =
     (if list_ex (\<lambda>x. ur_id x = ur_id new \<or>
                       (ur_user_id x = ur_user_id new \<and> ur_role x = ur_role new)) rows
      then Inl unique_violation else Inr (rows @ [new]))"

text \<open>\<open>notification_settings\<close>: \<open>id\<close> is the primary key, \<open>user_id\<close> is \<open>UNIQUE\<close>.\<close>

definition insert_notification_settings ::
  "notification_settings_row \<Rightarrow> notification_settings_row list
     \<Rightarrow> backend_error + notification_settings_row list" where
  "insert_notification_settings new rows =
     (if list_ex (\<lambda>x. ns_id x = ns_id new \<or> ns_user_id x = ns_user_id new) rows
      then Inl unique_violation else Inr (rows @ [new]))"

text \<open>
  The three rows that the function inserts. Columns that the \<open>INSERT\<close> statements do not
  name take their defaults: NULL for \<open>avatar_url\<close>, \<open>department\<close> and \<open>phone\<close>;
  \<open>true\<close>, \<open>ARRAY[7, 15, 30]\<close> and \<open>true\<close> for the notification settings.
\<close>

definition new_profile :: "auth_user \<Rightarrow> generated \<Rightarrow> profile_row" where
  "new_profile NEW g =
     \<lparr>p_id = g_profile_id g, p_user_id = au_id NEW,
      p_full_name = (case au_full_name NEW of None \<Rightarrow> [] | Some n \<Rightarrow> n),
      p_email = au_email NEW,
      p_avatar_url = None, p_department = None, p_phone = None,
      p_created_at = g_now g, p_updated_at = g_now g\<rparr>"

definition new_user_role :: "auth_user \<Rightarrow> generated \<Rightarrow> user_role_row" where
  "new_user_role NEW g =
     \<lparr>ur_id = g_role_id g, ur_user_id = au_id NEW, ur_role = Visualizador,
      ur_created_at = g_now g\<rparr>"

definition new_notification_settings :: "auth_user \<Rightarrow> generated \<Rightarrow> notification_settings_row" where
  "new_notification_settings NEW g =
     \<lparr>ns_id = g_settings_id g, ns_user_id = au_id NEW,
      ns_email_enabled = Some True, ns_days_before_expiry = Some [7, 15, 30],
      ns_weekly_summary = Some True,
      ns_created_at = g_now g, ns_updated_at = g_now g\<rparr>"

definition handle_new_user :: "database \<Rightarrow> auth_user \<Rightarrow> generated \<Rightarrow> backend_error + database" where
  "handle_new_user db NEW g =
     (case insert_profile (new_profile NEW g) (db_profiles db) of
        Inl e \<Rightarrow> Inl e
      | Inr ps \<Rightarrow>
     (case insert_user_role (new_user_role NEW g) (db_user_roles db) of
        Inl e \<Rightarrow> Inl e
      | Inr urs \<Rightarrow>
     (case insert_notification_settings (new_notification_settings NEW g)
             (db_notification_settings db) of
        Inl e \<Rightarrow> Inl e
      | Inr nss \<Rightarrow>
          Inr (db\<lparr>db_profiles := ps, db_user_roles := urs, db_notification_settings := nss\<rparr>))))"

text \<open>
  The trigger \<open>on_auth_user_created\<close>: an exception raised by the trigger function aborts
  the statement, and the tables stay as they were.
\<close>

definition on_auth_user_created :: "database \<Rightarrow> auth_user \<Rightarrow> generated \<Rightarrow> database" where
  "on_auth_user_created db NEW g =
     (case handle_new_user db NEW g of Inl e \<Rightarrow> db | Inr db' \<Rightarrow> db')"

text \<open>The rows of an identity in the three provisioned tables.\<close>

definition profiles_of :: "database \<Rightarrow> uuid \<Rightarrow> profile_row list" where
  "profiles_of db uid = filter (\<lambda>x. p_user_id x = uid) (db_profiles db)"

definition user_roles_of :: "database \<Rightarrow> uuid \<Rightarrow> user_role_row list" where
  "user_roles_of db uid = filter (\<lambda>x. ur_user_id x = uid) (db_user_roles db)"

definition notification_settings_of :: "database \<Rightarrow> uuid \<Rightarrow> notification_settings_row list" where
  "notification_settings_of db uid = filter (\<lambda>x. ns_user_id x = uid) (db_notification_settings db)"

text \<open>
  An identity is new when no row refers to it (the three tables reference \<open>auth.users\<close>
  with \<open>ON DELETE CASCADE\<close>); the generated ids are fresh when no row has them.
\<close>

definition new_identity :: "database \<Rightarrow> auth_user \<Rightarrow> bool" where
  "new_identity db NEW =
     (profiles_of db (au_id NEW) = [] \<and> user_roles_of db (au_id NEW) = [] \<and>
      notification_settings_of db (au_id NEW) = [])"

definition fresh_ids :: "database \<Rightarrow> generated \<Rightarrow> bool" where
  "fresh_ids db g =
     (g_profile_id g \<notin> set (map p_id (db_profiles db)) \<and>
      g_role_id g \<notin> set (map ur_id (db_user_roles db)) \<and>
      g_settings_id g \<notin> set (map ns_id (db_notification_settings db)))"

text \<open>The backend before any row or object exists.\<close>

definition empty_database :: database where
  "empty_database =
     \<lparr>db_profiles = [], db_user_roles = [], db_notification_settings = [],
      db_documents = [], db_audit_logs = [], db_storage = [],
      db_suppliers = [], db_contracts = [], db_obligations = [], db_payments = []\<rparr>"

section \<open>The client's view of the backend\<close>

text \<open>
  Every call of the client to the backend returns either data or an error. A call can
  fail for reasons that the model does not derive (the network, a foreign key, a
  \<open>NOT NULL\<close>, \<open>UNIQUE\<close> or enum constraint of a domain table): such a failure is the
  call's \<open>fault\<close>, chosen by the environment, and a call that fails leaves the backend
  as it was. What the handlers do besides changing their
  page's state is recorded in the \<open>world\<close>: the backend's state, the requests sent, the
  toasts shown, the lines written with \<open>console.error\<close> and the routes navigated to.
  Messages are written without diacritics.
\<close>

type_synonym fault = "backend_error option"

datatype toast =
    Toast_error string
  | Toast_error_described string string
  | Toast_success string

datatype request =
    Select_request table
  | Update_user_roles_request uuid app_role
  | Insert_document_request string
  | Delete_document_request uuid
  | Storage_upload_request string
  | Storage_remove_request string
  | Insert_request table row
  | Update_request table row "string option"

record world =
  w_db :: database
  w_requests :: "request list"
  w_toasts :: "toast list"
  w_console :: "string list"
  w_navigations :: "string list"

definition send :: "request \<Rightarrow> world \<Rightarrow> world" where
  "send r w = w\<lparr>w_requests := w_requests w @ [r]\<rparr>"

definition toast_error :: "string \<Rightarrow> world \<Rightarrow> world" where
  "toast_error m w = w\<lparr>w_toasts := w_toasts w @ [Toast_error m]\<rparr>"

definition toast_success :: "string \<Rightarrow> world \<Rightarrow> world" where
  "toast_success m w = w\<lparr>w_toasts := w_toasts w @ [Toast_success m]\<rparr>"

definition console_error :: "string \<Rightarrow> world \<Rightarrow> world" where
  "console_error m w = w\<lparr>w_console := w_console w @ [m]\<rparr>"

definition navigate :: "string \<Rightarrow> world \<Rightarrow> world" where
  "navigate route w = w\<lparr>w_navigations := w_navigations w @ [route]\<rparr>"

text \<open>The session: \<open>auth.uid()\<close> of the signed-in user, if any (\<open>user?.id\<close> in the client).\<close>

definition actor_of :: "uuid option \<Rightarrow> actor" where
  "actor_of user = (case user of None \<Rightarrow> Anon | Some uid \<Rightarrow> Authenticated uid)"

definition table_row :: "uuid option \<Rightarrow> rls_row" where
  "table_row owner = \<lparr>row_user_id = owner, row_bucket_id = []\<rparr>"

definition storage_row :: rls_row where
  "storage_row = \<lparr>row_user_id = None, row_bucket_id = ''contracts-documents''\<rparr>"

text \<open>
  \<open>supabase.from("profiles").select("*").order("full_name")\<close>: the rows that the select
  policy shows, in ascending order of \<open>full_name\<close> (the order of strings is the
  lexicographic one).
\<close>

definition select_profiles :: "fault \<Rightarrow> database \<Rightarrow> actor \<Rightarrow> backend_error + profile_row list" where
  "select_profiles fault db actor =
     (case fault of
        Some e \<Rightarrow> Inl e
      | None \<Rightarrow>
          Inr (sort_key p_full_name
                 (filter (\<lambda>p. rls_allows (db_user_roles db) actor Profiles SELECT
                                 (table_row (Some (p_user_id p))))
                    (db_profiles db))))"

text \<open>\<open>supabase.from("user_roles").select("*")\<close>.\<close>

definition select_user_roles :: "fault \<Rightarrow> database \<Rightarrow> actor \<Rightarrow> backend_error + user_role_row list" where
  "select_user_roles fault db actor =
     (case fault of
        Some e \<Rightarrow> Inl e
      | None \<Rightarrow>
          Inr (filter (\<lambda>r. rls_allows (db_user_roles db) actor User_roles SELECT
                              (table_row (Some (ur_user_id r))))
                 (db_user_roles db)))"

text \<open>
  \<open>supabase.from("user_roles").update({ role: newRole }).eq("user_id", target)\<close>. The
  update changes the rows of the target that the update policy lets the actor see; rows
  that it does not are skipped without an error. The changed rows all get the key
  \<open>(target, newRole)\<close>, so \<open>UNIQUE (user_id, role)\<close> is violated when a row was changed
  and the result has that key more than once.
\<close>

definition update_user_roles ::
  "fault \<Rightarrow> database \<Rightarrow> actor \<Rightarrow> app_role \<Rightarrow> uuid \<Rightarrow> backend_error + database" where
  "update_user_roles fault db actor newRole target =
     (case fault of
        Some e \<Rightarrow> Inl e
      | None \<Rightarrow>
          (let urs = db_user_roles db;
               hit = (\<lambda>r. ur_user_id r = target \<and>
                           rls_allows urs actor User_roles UPDATE (table_row (Some (ur_user_id r))));
               rows = map (\<lambda>r. if hit r then r\<lparr>ur_role := newRole\<rparr> else r) urs
           in if list_ex hit urs \<and>
                 1 < length (filter (\<lambda>x. ur_user_id x = target \<and> ur_role x = newRole) rows)
              then Inl unique_violation
              else Inr (db\<lparr>db_user_roles := rows\<rparr>)))"

section \<open>The users page\<close>

text \<open>The page's \<open>UserWithRole\<close>, its labels and the part of its state that the handlers use.\<close>

record UserWithRole =
  u_id :: uuid
  u_user_id :: uuid
  u_full_name :: string
  u_email :: string
  u_department :: "string option"
  u_phone :: "string option"
  u_created_at :: timestamp
  u_role :: app_role
  u_role_id :: string

fun roleLabels :: "app_role \<Rightarrow> string" where
  "roleLabels Admin = ''Administrador''"
| "roleLabels Gestor = ''Gestor''"
| "roleLabels Visualizador = ''Visualizador''"

record users_page =
  users :: "UserWithRole list"
  loading :: bool
  selectedUser :: "UserWithRole option"
  newRole :: "app_role option"
  isDialogOpen :: bool
  updating :: bool

text \<open>
  The combination of profiles and roles in \<open>fetchUsers\<close>: each profile takes the first
  role row of its user (\<open>roles?.find(...)\<close>); without one, the role is \<open>visualizador\<close> and
  the role id is empty.
\<close>

definition usersWithRoles :: "profile_row list \<Rightarrow> user_role_row list \<Rightarrow> UserWithRole list" where
  "usersWithRoles profiles roles =
     map (\<lambda>profile.
            let userRole = find (\<lambda>r. ur_user_id r = p_user_id profile) roles
            in \<lparr>u_id = p_id profile,
                u_user_id = p_user_id profile,
                u_full_name = p_full_name profile,
                u_email = p_email profile,
                u_department = p_department profile,
                u_phone = p_phone profile,
                u_created_at = p_created_at profile,
                u_role = (case userRole of None \<Rightarrow> Visualizador | Some r \<Rightarrow> ur_role r),
                u_role_id = (case userRole of None \<Rightarrow> [] | Some r \<Rightarrow> ur_id r)\<rparr>)
         profiles"

definition fetchUsers_failed :: "world \<times> users_page \<Rightarrow> world \<times> users_page" where
  "fetchUsers_failed s =
     (case s of (w, pg) \<Rightarrow>
        (toast_error ''Erro ao carregar usuarios'' (console_error ''Error fetching users:'' w),
         pg\<lparr>loading := False\<rparr>))"

definition fetchUsers ::
  "fault \<Rightarrow> fault \<Rightarrow> uuid option \<Rightarrow> world \<times> users_page \<Rightarrow> world \<times> users_page" where
  "fetchUsers f_profiles f_roles user s =
     (case s of (w, pg) \<Rightarrow>
        (let w1 = send (Select_request Profiles) w in
         case select_profiles f_profiles (w_db w1) (actor_of user) of
           Inl profilesError \<Rightarrow> fetchUsers_failed (w1, pg)
         | Inr profiles \<Rightarrow>
             (let w2 = send (Select_request User_roles) w1 in
              case select_user_roles f_roles (w_db w2) (actor_of user) of
                Inl rolesError \<Rightarrow> fetchUsers_failed (w2, pg)
              | Inr roles \<Rightarrow>
                  (w2, pg\<lparr>users := usersWithRoles profiles roles, loading := False\<rparr>))))"

text \<open>
  \<open>handleRoleChange\<close>. The call of \<open>fetchUsers()\<close> at the end of the success branch is not
  awaited; the model runs it after the \<open>finally\<close> block, which is the order in which the
  state changes arrive.
\<close>

definition handleRoleChange ::
  "fault \<Rightarrow> fault \<Rightarrow> fault \<Rightarrow> uuid option \<Rightarrow> world \<times> users_page \<Rightarrow> world \<times> users_page" where
  "handleRoleChange f_update f_profiles f_roles user s =
     (case s of (w, pg) \<Rightarrow>
        (case (selectedUser pg, newRole pg) of
           (Some su, Some nr) \<Rightarrow>
             (let w1 = send (Update_user_roles_request (u_user_id su) nr) w in
              case update_user_roles f_update (w_db w1) (actor_of user) nr (u_user_id su) of
                Inl error \<Rightarrow>
                  (toast_error ''Erro ao atualizar permissao''
                     (console_error ''Error updating role:'' w1),
                   pg\<lparr>updating := False\<rparr>)
              | Inr db' \<Rightarrow>
                  fetchUsers f_profiles f_roles user
                    (toast_success
                       (''Permissao de '' @ u_full_name su @ '' atualizada para '' @ roleLabels nr)
                       (w1\<lparr>w_db := db'\<rparr>),
                     pg\<lparr>isDialogOpen := False, selectedUser := None, newRole := None,
                        updating := False\<rparr>))
         | _ \<Rightarrow> (w, pg)))"

definition openRoleDialog ::
  "uuid option \<Rightarrow> UserWithRole \<Rightarrow> world \<times> users_page \<Rightarrow> world \<times> users_page" where
  "openRoleDialog user userToEdit s =
     (case s of (w, pg) \<Rightarrow>
        if Some (u_user_id userToEdit) = user
        then (toast_error ''Voce nao pode alterar sua propria permissao'' w, pg)
        else (w, pg\<lparr>selectedUser := Some userToEdit, newRole := Some (u_role userToEdit),
                    isDialogOpen := True\<rparr>))"

text \<open>The page's state when it mounts (the initial values of its \<open>useState\<close> calls).\<close>

definition initial_users_page :: users_page where
  "initial_users_page =
     \<lparr>users = [], loading = True, selectedUser = None, newRole = None,
      isDialogOpen = False, updating = False\<rparr>"

text \<open>A world in which nothing has been sent, shown or logged yet.\<close>

definition world_of :: "database \<Rightarrow> world" where
  "world_of db =
     \<lparr>w_db = db, w_requests = [], w_toasts = [], w_console = [], w_navigations = []\<rparr>"

section \<open>The audit page\<close>

text \<open>
  \<open>supabase.from("audit_logs").select("*").order("created_at", { ascending: false })
  .limit(500)\<close>: the rows that the select policy shows, newest first, and at most 500 of
  them. Rows of equal \<open>created_at\<close> come in some order; the model fixes one. Rows of the
  table carry no \<open>user_name\<close>.
\<close>

definition select_audit_logs :: "fault \<Rightarrow> database \<Rightarrow> actor \<Rightarrow> backend_error + AuditLog list" where
  "select_audit_logs fault db actor =
     (case fault of
        Some e \<Rightarrow> Inl e
      | None \<Rightarrow>
          Inr (take 500
                 (rev (sort_key al_created_at
                         (filter (\<lambda>r. rls_allows (db_user_roles db) actor Audit_logs SELECT
                                         (table_row (al_user_id r)))
                            (db_audit_logs db))))))"

text \<open>\<open>supabase.from("profiles").select("user_id, full_name")\<close> and the page's \<open>Profile\<close>.\<close>

record Profile =
  pr_user_id :: uuid
  pr_full_name :: string

definition select_profile_names :: "fault \<Rightarrow> database \<Rightarrow> actor \<Rightarrow> backend_error + Profile list" where
  "select_profile_names fault db actor =
     (case fault of
        Some e \<Rightarrow> Inl e
      | None \<Rightarrow>
          Inr (map (\<lambda>p. \<lparr>pr_user_id = p_user_id p, pr_full_name = p_full_name p\<rparr>)
                 (filter (\<lambda>p. rls_allows (db_user_roles db) actor Profiles SELECT
                                 (table_row (Some (p_user_id p))))
                    (db_profiles db))))"

record audit_page =
  ap_logs :: "AuditLog list"
  ap_profiles :: "Profile list"
  ap_loading :: bool

definition initial_audit_page :: audit_page where
  "initial_audit_page = \<lparr>ap_logs = [], ap_profiles = [], ap_loading = True\<rparr>"

text \<open>
  \<open>logsWithUserNames\<close>: each entry gets the name of the first profile whose \<open>user_id\<close>
  is the entry's; \<open>profile?.full_name || "Sistema"\<close> is \<open>"Sistema"\<close> when there is no such
  profile and when its name is the empty string.
\<close>

definition logsWithUserNames :: "Profile list \<Rightarrow> AuditLog list \<Rightarrow> AuditLog list" where
  "logsWithUserNames profiles logs =
     map (\<lambda>log.
            let profile = find (\<lambda>p. Some (pr_user_id p) = al_user_id log) profiles
            in log\<lparr>al_user_name :=
                 Some (case profile of
                         None \<Rightarrow> ''Sistema''
                       | Some p \<Rightarrow> if pr_full_name p = [] then ''Sistema'' else pr_full_name p)\<rparr>)
         logs"

definition fetchData_failed :: "world \<times> audit_page \<Rightarrow> world \<times> audit_page" where
  "fetchData_failed s =
     (case s of (w, pg) \<Rightarrow>
        (toast_error ''Erro ao carregar logs de auditoria''
           (console_error ''Error fetching audit logs:'' w),
         pg\<lparr>ap_loading := False\<rparr>))"

text \<open>
  \<open>fetchData\<close>: both requests are sent (\<open>Promise.all\<close>); the error of the first is looked
  at first.
\<close>

definition fetchData ::
  "fault \<Rightarrow> fault \<Rightarrow> uuid option \<Rightarrow> world \<times> audit_page \<Rightarrow> world \<times> audit_page" where
  "fetchData f_logs f_profiles user s =
     (case s of (w, pg) \<Rightarrow>
        (let w1 = send (Select_request Profiles) (send (Select_request Audit_logs) w) in
         case select_audit_logs f_logs (w_db w1) (actor_of user) of
           Inl e \<Rightarrow> fetchData_failed (w1, pg)
         | Inr logsData \<Rightarrow>
             (case select_profile_names f_profiles (w_db w1) (actor_of user) of
                Inl e \<Rightarrow> fetchData_failed (w1, pg)
              | Inr profilesData \<Rightarrow>
                  (w1, pg\<lparr>ap_profiles := profilesData,
                           ap_logs := logsWithUserNames profilesData logsData,
                           ap_loading := False\<rparr>))))"

subsection \<open>The client-side filter\<close>

text \<open>
  JavaScript values that are a boolean or \<open>undefined\<close> (the result of \<open>?.\<close> on a missing
  value), with \<open>||\<close> and \<open>&&\<close> on them; \<open>filter\<close> keeps an element when the callback's
  result is truthy.
\<close>

fun truthy :: "bool option \<Rightarrow> bool" where
  "truthy None = False"
| "truthy (Some b) = b"

definition js_or :: "bool option \<Rightarrow> bool option \<Rightarrow> bool option" where
  "js_or a b = (if truthy a then a else b)"

definition js_and :: "bool option \<Rightarrow> bool option \<Rightarrow> bool option" where
  "js_and a b = (if truthy a then b else a)"

text \<open>\<open>haystack.includes(needle)\<close>: the needle occurs at some position of the haystack.\<close>

fun js_includes :: "string \<Rightarrow> string \<Rightarrow> bool" where
  "js_includes [] needle = (needle = [])"
| "js_includes (c # cs) needle = (prefix needle (c # cs) \<or> js_includes cs needle)"

text \<open>
  \<open>filteredLogs\<close>. \<open>String.prototype.toLowerCase\<close> is a parameter: the filter is the same
  for every lower-casing function.
\<close>

definition matchesSearch :: "(string \<Rightarrow> string) \<Rightarrow> string \<Rightarrow> AuditLog \<Rightarrow> bool option" where
  "matchesSearch toLowerCase searchTerm log =
     js_or
       (js_or
          (map_option (\<lambda>n. js_includes (toLowerCase n) (toLowerCase searchTerm)) (al_user_name log))
          (Some (js_includes (toLowerCase (al_table_name log)) (toLowerCase searchTerm))))
       (map_option (\<lambda>r. js_includes (toLowerCase r) (toLowerCase searchTerm)) (al_record_id log))"

definition filteredLogs ::
  "(string \<Rightarrow> string) \<Rightarrow> AuditLog list \<Rightarrow> string \<Rightarrow> string \<Rightarrow> string \<Rightarrow> AuditLog list" where
  "filteredLogs toLowerCase logs searchTerm actionFilter tableFilter =
     filter (\<lambda>log.
               let matchesAction = (actionFilter = ''all'' \<or> al_action log = actionFilter);
                   matchesTable = (tableFilter = ''all'' \<or> al_table_name log = tableFilter)
               in truthy (js_and (js_and (matchesSearch toLowerCase searchTerm log)
                                    (Some matchesAction))
                            (Some matchesTable)))
       logs"

text \<open>A lower-casing function for examples: the letters A to Z, as \<open>toLowerCase\<close> maps them.\<close>

definition ascii_lower :: "string \<Rightarrow> string" where
  "ascii_lower s =
     map (\<lambda>c. if CHR ''A'' \<le> c \<and> c \<le> CHR ''Z'' then char_of (of_char c + (32::nat)) else c) s"

text \<open>
  The specification's "contains the search term as a case-insensitive substring": after
  lower-casing both, the search term is a contiguous part of the text.
\<close>

definition contains_ignoring_case :: "(string \<Rightarrow> string) \<Rightarrow> string \<Rightarrow> string \<Rightarrow> bool" where
  "contains_ignoring_case toLowerCase haystack searchTerm =
     sublist (toLowerCase searchTerm) (toLowerCase haystack)"

section \<open>The documents of a contract\<close>

text \<open>
  The calls of the \<open>DocumentUpload\<close> component. An insert that the policy's
  \<open>WITH CHECK\<close> rejects is an error; a delete skips the rows and objects that the delete
  policy does not let the actor see, without an error. The foreign key of
  \<open>documents.contract_id\<close> refers to a table outside the model: its violation is a fault.
\<close>

definition rls_violation :: backend_error where
  "rls_violation = Backend_error ''new row violates row-level security policy''"

text \<open>\<open>supabase.storage.from("contracts-documents").upload(filePath, file)\<close>.\<close>

definition storage_upload :: "fault \<Rightarrow> database \<Rightarrow> actor \<Rightarrow> string \<Rightarrow> backend_error + database" where
  "storage_upload fault db actor filePath =
     (case fault of
        Some e \<Rightarrow> Inl e
      | None \<Rightarrow>
          if \<not> rls_allows (db_user_roles db) actor Storage_objects INSERT storage_row
          then Inl rls_violation
          else if filePath \<in> set (db_storage db)
          then Inl (Backend_error ''The resource already exists'')
          else Inr (db\<lparr>db_storage := db_storage db @ [filePath]\<rparr>))"

text \<open>\<open>supabase.storage.from("contracts-documents").remove([doc.file_path])\<close>.\<close>

definition storage_remove :: "fault \<Rightarrow> database \<Rightarrow> actor \<Rightarrow> string \<Rightarrow> backend_error + database" where
  "storage_remove fault db actor filePath =
     (case fault of
        Some e \<Rightarrow> Inl e
      | None \<Rightarrow>
          Inr (db\<lparr>db_storage :=
                 filter (\<lambda>p. \<not> (p = filePath \<and>
                                  rls_allows (db_user_roles db) actor Storage_objects DELETE
                                    storage_row))
                   (db_storage db)\<rparr>))"

text \<open>\<open>supabase.from("documents").insert({...})\<close>; \<open>id\<close> is the primary key.\<close>

definition insert_document :: "fault \<Rightarrow> database \<Rightarrow> actor \<Rightarrow> document_row \<Rightarrow> backend_error + database" where
  "insert_document fault db actor new =
     (case fault of
        Some e \<Rightarrow> Inl e
      | None \<Rightarrow>
          if \<not> rls_allows (db_user_roles db) actor Documents INSERT (table_row None)
          then Inl rls_violation
          else if list_ex (\<lambda>x. d_id x = d_id new) (db_documents db)
          then Inl unique_violation
          else Inr (db\<lparr>db_documents := db_documents db @ [new]\<rparr>))"

text \<open>\<open>supabase.from("documents").delete().eq("id", doc.id)\<close>.\<close>

definition delete_document :: "fault \<Rightarrow> database \<Rightarrow> actor \<Rightarrow> uuid \<Rightarrow> backend_error + database" where
  "delete_document fault db actor doc_id =
     (case fault of
        Some e \<Rightarrow> Inl e
      | None \<Rightarrow>
          Inr (db\<lparr>db_documents :=
                 filter (\<lambda>d. \<not> (d_id d = doc_id \<and>
                                  rls_allows (db_user_roles db) actor Documents DELETE
                                    (table_row None)))
                   (db_documents db)\<rparr>))"

text \<open>
  \<open>supabase.from("documents").select("*").eq("contract_id", contractId)
  .order("created_at", { ascending: false })\<close>.
\<close>

definition select_documents ::
  "fault \<Rightarrow> database \<Rightarrow> actor \<Rightarrow> uuid \<Rightarrow> backend_error + document_row list" where
  "select_documents fault db actor contractId =
     (case fault of
        Some e \<Rightarrow> Inl e
      | None \<Rightarrow>
          Inr (rev (sort_key d_created_at
                      (filter (\<lambda>d. d_contract_id d = contractId \<and>
                                    rls_allows (db_user_roles db) actor Documents SELECT
                                      (table_row None))
                         (db_documents db)))))"

record upload_page =
  documents :: "document_row list"
  dp_loading :: bool
  uploading :: bool
  deleting :: "uuid option"

definition initial_upload_page :: upload_page where
  "initial_upload_page =
     \<lparr>documents = [], dp_loading = True, uploading = False, deleting = None\<rparr>"

text \<open>The chosen file: its name, MIME type and size in bytes.\<close>

record upload_file =
  f_name :: string
  f_type :: string
  f_size :: nat

text \<open>\<open>error.message || fallback\<close>.\<close>

definition message_or :: "backend_error \<Rightarrow> string \<Rightarrow> string" where
  "message_or error fallback = (if err_message error = [] then fallback else err_message error)"

definition fetchDocuments ::
  "fault \<Rightarrow> uuid option \<Rightarrow> uuid \<Rightarrow> world \<times> upload_page \<Rightarrow> world \<times> upload_page" where
  "fetchDocuments f_select user contractId s =
     (case s of (w, pg) \<Rightarrow>
        (let w1 = send (Select_request Documents) w in
         case select_documents f_select (w_db w1) (actor_of user) contractId of
           Inl error \<Rightarrow> (console_error ''Error fetching documents:'' w1, pg\<lparr>dp_loading := False\<rparr>)
         | Inr data \<Rightarrow> (w1, pg\<lparr>documents := data, dp_loading := False\<rparr>)))"

definition handleUpload_failed ::
  "backend_error \<Rightarrow> world \<times> upload_page \<Rightarrow> world \<times> upload_page" where
  "handleUpload_failed error s =
     (case s of (w, pg) \<Rightarrow>
        (toast_error (message_or error ''Erro ao enviar documento'')
           (console_error ''Error uploading document:'' w),
         pg\<lparr>uploading := False\<rparr>))"

text \<open>
  \<open>handleUpload\<close>. The environment supplies the chosen file (if any), \<open>Date.now()\<close> in
  decimal, and the id and creation time that the table's defaults generate for the new
  row. The refetch at the end of the success branch is not awaited and is run last.
\<close>

definition handleUpload ::
  "upload_file option \<Rightarrow> string \<Rightarrow> uuid \<Rightarrow> timestamp \<Rightarrow> fault \<Rightarrow> fault \<Rightarrow> fault \<Rightarrow> uuid option \<Rightarrow> uuid
     \<Rightarrow> world \<times> upload_page \<Rightarrow> world \<times> upload_page" where
  "handleUpload chosen timestamp new_id now f_upload f_insert f_select user contractId s =
     (case s of (w, pg) \<Rightarrow>
        (case chosen of
           None \<Rightarrow> (w, pg)
         | Some file \<Rightarrow>
             if f_type file \<noteq> ''application/pdf''
             then (toast_error ''Apenas arquivos PDF sao permitidos'' w, pg)
             else if f_size file > 50 * 1024 * 1024
             then (toast_error ''O arquivo deve ter no maximo 50MB'' w, pg)
             else
               (let filePath = contractId @ ''/'' @ timestamp @ ''_'' @ f_name file;
                    w1 = send (Storage_upload_request filePath) w
                in case storage_upload f_upload (w_db w1) (actor_of user) filePath of
                     Inl uploadError \<Rightarrow> handleUpload_failed uploadError (w1, pg)
                   | Inr db1 \<Rightarrow>
                       (let w2 = send (Insert_document_request filePath) (w1\<lparr>w_db := db1\<rparr>)
                        in case insert_document f_insert (w_db w2) (actor_of user)
                                  \<lparr>d_id = new_id, d_contract_id = contractId,
                                   d_file_name = f_name file, d_file_path = filePath,
                                   d_file_type = Some (f_type file),
                                   d_file_size = Some (int (f_size file)),
                                   d_extracted_data = None, d_uploaded_by = user,
                                   d_created_at = now\<rparr> of
                             Inl dbError \<Rightarrow> handleUpload_failed dbError (w2, pg)
                           | Inr db2 \<Rightarrow>
                               fetchDocuments f_select user contractId
                                 (toast_success ''Documento enviado com sucesso!''
                                    (w2\<lparr>w_db := db2\<rparr>),
                                  pg\<lparr>uploading := False\<rparr>)))))"

definition handleDelete_failed ::
  "backend_error \<Rightarrow> world \<times> upload_page \<Rightarrow> world \<times> upload_page" where
  "handleDelete_failed error s =
     (case s of (w, pg) \<Rightarrow>
        (toast_error (message_or error ''Erro ao excluir documento'')
           (console_error ''Error deleting document:'' w),
         pg\<lparr>deleting := None\<rparr>))"

text \<open>\<open>handleDelete\<close>; \<open>confirmed\<close> is the answer to the \<open>confirm\<close> dialog.\<close>

definition handleDelete ::
  "bool \<Rightarrow> fault \<Rightarrow> fault \<Rightarrow> uuid option \<Rightarrow> document_row \<Rightarrow> world \<times> upload_page
     \<Rightarrow> world \<times> upload_page" where
  "handleDelete confirmed f_storage f_db user doc s =
     (case s of (w, pg) \<Rightarrow>
        if \<not> confirmed then (w, pg)
        else
          (let w1 = send (Storage_remove_request (d_file_path doc)) w
           in case storage_remove f_storage (w_db w1) (actor_of user) (d_file_path doc) of
                Inl storageError \<Rightarrow> handleDelete_failed storageError (w1, pg)
              | Inr db1 \<Rightarrow>
                  (let w2 = send (Delete_document_request (d_id doc)) (w1\<lparr>w_db := db1\<rparr>)
                   in case delete_document f_db (w_db w2) (actor_of user) (d_id doc) of
                        Inl dbError \<Rightarrow> handleDelete_failed dbError (w2, pg)
                      | Inr db2 \<Rightarrow>
                          (toast_success ''Documento excluido com sucesso!'' (w2\<lparr>w_db := db2\<rparr>),
                           pg\<lparr>documents := filter (\<lambda>d. d_id d \<noteq> d_id doc) (documents pg),
                              deleting := None\<rparr>))))"

section \<open>The domain tables\<close>

text \<open>
  JSON objects: \<open>o.k\<close> (\<open>undefined\<close> and \<open>null\<close> are both \<open>Null\<close>), \<open>{...o, k: v}\<close>, and
  the truthiness of a value.
\<close>

definition column :: "string \<Rightarrow> row \<Rightarrow> json" where
  "column k r = (case map_of r k of None \<Rightarrow> Null | Some v \<Rightarrow> v)"

definition set_column :: "string \<Rightarrow> json \<Rightarrow> row \<Rightarrow> row" where
  "set_column k v r =
     (if map_of r k = None then r @ [(k, v)]
      else map (\<lambda>(k', v'). if k' = k then (k', v) else (k', v')) r)"

fun json_truthy :: "json \<Rightarrow> bool" where
  "json_truthy Null = False"
| "json_truthy (String s) = (s \<noteq> [])"
| "json_truthy (Bool b) = b"
| "json_truthy (Number m k) = (m \<noteq> 0)"
| "json_truthy (Object entries) = True"

fun text_of :: "json \<Rightarrow> string" where
  "text_of (String s) = s"
| "text_of _ = []"

text \<open>\<open>s || null\<close> for a string, and for a string that may be missing.\<close>

definition or_null :: "string \<Rightarrow> json" where
  "or_null s = (if s = [] then Null else String s)"

definition optional_or_null :: "string option \<Rightarrow> json" where
  "optional_or_null x = (case x of None \<Rightarrow> Null | Some s \<Rightarrow> or_null s)"

text \<open>
  \<open>created_by: user?.id\<close>: without a signed-in user the value is \<open>undefined\<close> and the key
  is not sent.
\<close>

definition created_by :: "uuid option \<Rightarrow> row" where
  "created_by user = (case user of None \<Rightarrow> [] | Some uid \<Rightarrow> [(''created_by'', String uid)])"

fun domain_rows :: "table \<Rightarrow> database \<Rightarrow> row list" where
  "domain_rows Suppliers db = db_suppliers db"
| "domain_rows Contracts db = db_contracts db"
| "domain_rows Obligations db = db_obligations db"
| "domain_rows Payments db = db_payments db"
| "domain_rows _ db = []"

fun set_domain_rows :: "table \<Rightarrow> row list \<Rightarrow> database \<Rightarrow> database" where
  "set_domain_rows Suppliers rows db = db\<lparr>db_suppliers := rows\<rparr>"
| "set_domain_rows Contracts rows db = db\<lparr>db_contracts := rows\<rparr>"
| "set_domain_rows Obligations rows db = db\<lparr>db_obligations := rows\<rparr>"
| "set_domain_rows Payments rows db = db\<lparr>db_payments := rows\<rparr>"
| "set_domain_rows _ rows db = db"

text \<open>
  \<open>supabase.from(table).insert(payload)\<close>. The columns that the payload does not name
  take their defaults; \<open>defaults\<close> are the values that the table's column defaults give
  for this row (a fresh id, \<open>now()\<close>, the constant defaults), supplied by the environment.
\<close>

definition with_defaults :: "row \<Rightarrow> row \<Rightarrow> row" where
  "with_defaults payload defaults =
     foldl (\<lambda>r (k, v). if map_of r k = None then r @ [(k, v)] else r) payload defaults"

definition insert_row ::
  "fault \<Rightarrow> database \<Rightarrow> actor \<Rightarrow> table \<Rightarrow> row \<Rightarrow> row \<Rightarrow> backend_error + database" where
  "insert_row fault db actor tbl defaults payload =
     (case fault of
        Some e \<Rightarrow> Inl e
      | None \<Rightarrow>
          if \<not> rls_allows (db_user_roles db) actor tbl INSERT (table_row None)
          then Inl rls_violation
          else Inr (set_domain_rows tbl (domain_rows tbl db @ [with_defaults payload defaults]) db))"

text \<open>
  \<open>supabase.from(table).update(payload).eq("id", id)\<close>. The rows with that id that the
  update policy lets the actor see get the payload's columns, and the trigger
  \<open>update_updated_at_column\<close> sets their \<open>updated_at\<close> to \<open>now()\<close>; other rows are skipped
  without an error. A missing id (\<open>undefined\<close>) is not a UUID, and the call fails.
\<close>

definition invalid_uuid :: backend_error where
  "invalid_uuid = Backend_error ''invalid input syntax for type uuid''"

definition apply_payload :: "row \<Rightarrow> row \<Rightarrow> row" where
  "apply_payload payload r = foldl (\<lambda>r (k, v). set_column k v r) r payload"

definition update_rows ::
  "fault \<Rightarrow> database \<Rightarrow> actor \<Rightarrow> table \<Rightarrow> string \<Rightarrow> row \<Rightarrow> string option
     \<Rightarrow> backend_error + database" where
  "update_rows fault db actor tbl now payload row_id =
     (case fault of
        Some e \<Rightarrow> Inl e
      | None \<Rightarrow>
          (case row_id of
             None \<Rightarrow> Inl invalid_uuid
           | Some i \<Rightarrow>
               Inr (set_domain_rows tbl
                      (map (\<lambda>r. if column ''id'' r = String i \<and>
                                    rls_allows (db_user_roles db) actor tbl UPDATE (table_row None)
                                 then set_column ''updated_at'' (String now) (apply_payload payload r)
                                 else r)
                         (domain_rows tbl db))
                      db)))"

text \<open>
  The select of the obligations and payments pages:
  \<open>.select("..., contracts(id, title)").order("due_date", { ascending: true })\<close>, with
  \<open>.eq("status", status)\<close> when a status is asked for. Each row comes with its contract
  (through \<open>contract_id\<close>) as the embedded object \<open>contracts\<close>, or \<open>null\<close> when the actor
  cannot see one.
\<close>

definition embed_contract :: "database \<Rightarrow> actor \<Rightarrow> row \<Rightarrow> json" where
  "embed_contract db actor r =
     (case find (\<lambda>c. column ''id'' c = column ''contract_id'' r)
             (filter (\<lambda>c. rls_allows (db_user_roles db) actor Contracts SELECT (table_row None))
                (db_contracts db)) of
        None \<Rightarrow> Null
      | Some c \<Rightarrow> Object [(''id'', column ''id'' c), (''title'', column ''title'' c)])"

definition select_with_contract ::
  "fault \<Rightarrow> database \<Rightarrow> actor \<Rightarrow> table \<Rightarrow> string list \<Rightarrow> string option
     \<Rightarrow> backend_error + row list" where
  "select_with_contract fault db actor tbl columns status =
     (case fault of
        Some e \<Rightarrow> Inl e
      | None \<Rightarrow>
          Inr (map (\<lambda>r. map (\<lambda>k. (k, column k r)) columns @
                          [(''contracts'', embed_contract db actor r)])
                 (sort_key (\<lambda>r. text_of (column ''due_date'' r))
                    (filter (\<lambda>r. rls_allows (db_user_roles db) actor tbl SELECT (table_row None) \<and>
                                  (case status of
                                     None \<Rightarrow> True
                                   | Some st \<Rightarrow> column ''status'' r = String st))
                       (domain_rows tbl db)))))"

text \<open>
  \<open>{...o, contract_title: o.contracts?.title || "Sem contrato",
  contract_id: o.contracts?.id || ""}\<close>.
\<close>

definition contract_field :: "string \<Rightarrow> row \<Rightarrow> json" where
  "contract_field k r =
     (case column ''contracts'' r of Object entries \<Rightarrow> column k entries | _ \<Rightarrow> Null)"

definition with_contract :: "row \<Rightarrow> row" where
  "with_contract r =
     set_column ''contract_id''
       (if json_truthy (contract_field ''id'' r) then contract_field ''id'' r else String [])
       (set_column ''contract_title''
          (if json_truthy (contract_field ''title'' r) then contract_field ''title'' r
           else String ''Sem contrato'')
          r)"

section \<open>The supplier and contract forms\<close>

text \<open>
  The forms validate their data with a schema (\<open>supplierSchema.safeParse(formData)\<close>);
  the outcome of the validation is an input of the handlers: the formatted errors, or
  the validated data. \<open>can_edit\<close> is the flag \<open>canEdit\<close> of the authentication context;
  \<open>isNew\<close> and \<open>row_id\<close> (the route's \<open>id\<close>) come from the route.
\<close>

record SupplierData =
  sd_name :: string
  sd_cnpj :: string
  sd_email :: string
  sd_phone :: string
  sd_address :: string
  sd_city :: string
  sd_state :: string
  sd_category :: string
  sd_contact_name :: string
  sd_notes :: string
  sd_is_active :: bool

record SupplierFormData =
  vs_name :: string
  vs_cnpj :: "string option"
  vs_email :: "string option"
  vs_phone :: "string option"
  vs_address :: "string option"
  vs_city :: "string option"
  vs_state :: "string option"
  vs_category :: "string option"
  vs_contact_name :: "string option"
  vs_notes :: "string option"
  vs_is_active :: bool

record supplier_form =
  sf_loading :: bool
  sf_saving :: bool
  sf_formData :: SupplierData

definition supplierData :: "SupplierFormData \<Rightarrow> bool \<Rightarrow> uuid option \<Rightarrow> row" where
  "supplierData validData isNew user =
     [(''name'', String (vs_name validData)),
      (''cnpj'', optional_or_null (vs_cnpj validData)),
      (''email'', optional_or_null (vs_email validData)),
      (''phone'', optional_or_null (vs_phone validData)),
      (''address'', optional_or_null (vs_address validData)),
      (''city'', optional_or_null (vs_city validData)),
      (''state'', optional_or_null (vs_state validData)),
      (''category'', optional_or_null (vs_category validData)),
      (''contact_name'', optional_or_null (vs_contact_name validData)),
      (''notes'', optional_or_null (vs_notes validData)),
      (''is_active'', Bool (vs_is_active validData))]
     @ (if isNew then created_by user else [])"

definition SupplierForm_failed :: "world \<times> supplier_form \<Rightarrow> world \<times> supplier_form" where
  "SupplierForm_failed s =
     (case s of (w, pg) \<Rightarrow>
        (toast_error ''Erro ao salvar fornecedor. Tente novamente.''
           (console_error ''Error saving supplier:'' w),
         pg\<lparr>sf_saving := False\<rparr>))"

definition SupplierForm_handleSubmit ::
  "bool \<Rightarrow> string + SupplierFormData \<Rightarrow> bool \<Rightarrow> string option \<Rightarrow> uuid option \<Rightarrow> row \<Rightarrow> string
     \<Rightarrow> fault \<Rightarrow> world \<times> supplier_form \<Rightarrow> world \<times> supplier_form" where
  "SupplierForm_handleSubmit can_edit validationResult isNew row_id user defaults now fault s =
     (case s of (w, pg) \<Rightarrow>
        if \<not> can_edit then (toast_error ''Voce nao tem permissao para esta acao'' w, pg)
        else
          (case validationResult of
             Inl errors \<Rightarrow>
               (w\<lparr>w_toasts := w_toasts w @ [Toast_error_described ''Dados invalidos'' errors]\<rparr>, pg)
           | Inr validData \<Rightarrow>
               (let payload = supplierData validData isNew user in
                if isNew then
                  (let w1 = send (Insert_request Suppliers payload) w in
                   case insert_row fault (w_db w1) (actor_of user) Suppliers defaults payload of
                     Inl error \<Rightarrow> SupplierForm_failed (w1, pg)
                   | Inr db' \<Rightarrow>
                       (navigate ''/fornecedores''
                          (toast_success ''Fornecedor criado com sucesso!'' (w1\<lparr>w_db := db'\<rparr>)),
                        pg\<lparr>sf_saving := False\<rparr>))
                else
                  (let w1 = send (Update_request Suppliers payload row_id) w in
                   case update_rows fault (w_db w1) (actor_of user) Suppliers now payload row_id of
                     Inl error \<Rightarrow> SupplierForm_failed (w1, pg)
                   | Inr db' \<Rightarrow>
                       (navigate ''/fornecedores''
                          (toast_success ''Fornecedor atualizado com sucesso!''
                             (w1\<lparr>w_db := db'\<rparr>)),
                        pg\<lparr>sf_saving := False\<rparr>)))))"

record ContractData =
  cd_contract_number :: string
  cd_title :: string
  cd_description :: string
  cd_contract_type :: string
  cd_status :: string
  cd_supplier_id :: string
  cd_total_value :: string
  cd_start_date :: string
  cd_end_date :: string
  cd_signature_date :: string
  cd_renewal_date :: string
  cd_payment_terms :: string
  cd_notes :: string

record ContractFormData =
  vc_contract_number :: string
  vc_title :: string
  vc_description :: "string option"
  vc_contract_type :: string
  vc_status :: string
  vc_supplier_id :: "string option"
  vc_total_value :: "string option"
  vc_start_date :: string
  vc_end_date :: string
  vc_signature_date :: "string option"
  vc_renewal_date :: "string option"
  vc_payment_terms :: "string option"
  vc_notes :: "string option"

record contract_form =
  cf_loading :: bool
  cf_saving :: bool
  cf_formData :: ContractData

text \<open>
  JavaScript's \<open>parseFloat\<close> is a parameter: it gives a decimal \<open>(m, k)\<close>, or \<open>None\<close> for
  \<open>NaN\<close>, which is sent as \<open>null\<close>.
  \<open>validData.total_value ? parseFloat(validData.total_value) : null\<close>:
\<close>

definition total_value :: "(string \<Rightarrow> (int \<times> nat) option) \<Rightarrow> string option \<Rightarrow> json" where
  "total_value parseFloat v =
     (case v of
        None \<Rightarrow> Null
      | Some s \<Rightarrow>
          if s = [] then Null
          else (case parseFloat s of None \<Rightarrow> Null | Some (m, k) \<Rightarrow> Number m k))"

definition contractData ::
  "(string \<Rightarrow> (int \<times> nat) option) \<Rightarrow> ContractFormData \<Rightarrow> bool \<Rightarrow> uuid option \<Rightarrow> row" where
  "contractData parseFloat validData isNew user =
     [(''contract_number'', String (vc_contract_number validData)),
      (''title'', String (vc_title validData)),
      (''description'', optional_or_null (vc_description validData)),
      (''contract_type'', String (vc_contract_type validData)),
      (''status'', String (vc_status validData)),
      (''supplier_id'', optional_or_null (vc_supplier_id validData)),
      (''total_value'', total_value parseFloat (vc_total_value validData)),
      (''start_date'', String (vc_start_date validData)),
      (''end_date'', String (vc_end_date validData)),
      (''signature_date'', optional_or_null (vc_signature_date validData)),
      (''renewal_date'', optional_or_null (vc_renewal_date validData)),
      (''payment_terms'', optional_or_null (vc_payment_terms validData)),
      (''notes'', optional_or_null (vc_notes validData))]
     @ (if isNew then created_by user else [])"

definition ContractForm_failed :: "world \<times> contract_form \<Rightarrow> world \<times> contract_form" where
  "ContractForm_failed s =
     (case s of (w, pg) \<Rightarrow>
        (toast_error ''Erro ao salvar contrato. Tente novamente.''
           (console_error ''Error saving contract:'' w),
         pg\<lparr>cf_saving := False\<rparr>))"

definition ContractForm_handleSubmit ::
  "(string \<Rightarrow> (int \<times> nat) option) \<Rightarrow> bool \<Rightarrow> string + ContractFormData \<Rightarrow> bool \<Rightarrow> string option
     \<Rightarrow> uuid option \<Rightarrow> row \<Rightarrow> string \<Rightarrow> fault
     \<Rightarrow> world \<times> contract_form \<Rightarrow> world \<times> contract_form" where
  "ContractForm_handleSubmit parseFloat can_edit validationResult isNew row_id user defaults now fault s =
     (case s of (w, pg) \<Rightarrow>
        if \<not> can_edit then (toast_error ''Voce nao tem permissao para esta acao'' w, pg)
        else
          (case validationResult of
             Inl errors \<Rightarrow>
               (w\<lparr>w_toasts := w_toasts w @ [Toast_error_described ''Dados invalidos'' errors]\<rparr>, pg)
           | Inr validData \<Rightarrow>
               (let payload = contractData parseFloat validData isNew user in
                if isNew then
                  (let w1 = send (Insert_request Contracts payload) w in
                   case insert_row fault (w_db w1) (actor_of user) Contracts defaults payload of
                     Inl error \<Rightarrow> ContractForm_failed (w1, pg)
                   | Inr db' \<Rightarrow>
                       (navigate ''/contratos''
                          (toast_success ''Contrato criado com sucesso!'' (w1\<lparr>w_db := db'\<rparr>)),
                        pg\<lparr>cf_saving := False\<rparr>))
                else
                  (let w1 = send (Update_request Contracts payload row_id) w in
                   case update_rows fault (w_db w1) (actor_of user) Contracts now payload row_id of
                     Inl error \<Rightarrow> ContractForm_failed (w1, pg)
                   | Inr db' \<Rightarrow>
                       (navigate ''/contratos''
                          (toast_success ''Contrato atualizado com sucesso!''
                             (w1\<lparr>w_db := db'\<rparr>)),
                        pg\<lparr>cf_saving := False\<rparr>)))))"

section \<open>The obligations page\<close>

record obligation_form =
  of_contract_id :: string
  of_title :: string
  of_description :: string
  of_obligation_type :: string
  of_due_date :: string
  of_status :: string

definition empty_obligation_form :: obligation_form where
  "empty_obligation_form =
     \<lparr>of_contract_id = [], of_title = [], of_description = [], of_obligation_type = [],
      of_due_date = [], of_status = ''pendente''\<rparr>"

record obligations_page =
  ob_obligations :: "row list"
  ob_loading :: bool
  ob_statusFilter :: string
  ob_isDialogOpen :: bool
  ob_saving :: bool
  ob_formData :: obligation_form

definition fetchObligations ::
  "fault \<Rightarrow> uuid option \<Rightarrow> world \<times> obligations_page \<Rightarrow> world \<times> obligations_page" where
  "fetchObligations f_select user s =
     (case s of (w, pg) \<Rightarrow>
        (let w1 = send (Select_request Obligations) w in
         case select_with_contract f_select (w_db w1) (actor_of user) Obligations
                [''id'', ''title'', ''description'', ''obligation_type'', ''due_date'', ''status'']
                (if ob_statusFilter pg \<noteq> ''all'' then Some (ob_statusFilter pg) else None) of
           Inl error \<Rightarrow>
             (console_error ''Error fetching obligations:'' w1, pg\<lparr>ob_loading := False\<rparr>)
         | Inr data \<Rightarrow>
             (w1, pg\<lparr>ob_obligations := map with_contract data, ob_loading := False\<rparr>)))"

definition obligationPayload :: "obligation_form \<Rightarrow> uuid option \<Rightarrow> row" where
  "obligationPayload formData user =
     [(''contract_id'', String (of_contract_id formData)),
      (''title'', String (of_title formData)),
      (''description'', or_null (of_description formData)),
      (''obligation_type'', String (of_obligation_type formData)),
      (''due_date'', String (of_due_date formData)),
      (''status'', String (of_status formData))]
     @ created_by user"

text \<open>
  \<open>handleSubmit\<close> of the obligations page. As in \<open>handleRoleChange\<close>, the refetch that is
  not awaited is run last.
\<close>

definition Obligations_handleSubmit ::
  "uuid option \<Rightarrow> row \<Rightarrow> fault \<Rightarrow> fault \<Rightarrow> world \<times> obligations_page
     \<Rightarrow> world \<times> obligations_page" where
  "Obligations_handleSubmit user defaults f_insert f_select s =
     (case s of (w, pg) \<Rightarrow>
        (let formData = ob_formData pg in
         if of_contract_id formData = [] \<or> of_title formData = [] \<or>
            of_obligation_type formData = [] \<or> of_due_date formData = []
         then (toast_error ''Preencha todos os campos obrigatorios'' w, pg)
         else
           (let payload = obligationPayload formData user;
                w1 = send (Insert_request Obligations payload) w
            in case insert_row f_insert (w_db w1) (actor_of user) Obligations defaults payload of
                 Inl error \<Rightarrow>
                   (toast_error ''Erro ao cadastrar obrigacao''
                      (console_error ''Error creating obligation:'' w1),
                    pg\<lparr>ob_saving := False\<rparr>)
               | Inr db' \<Rightarrow>
                   fetchObligations f_select user
                     (toast_success ''Obrigacao cadastrada com sucesso'' (w1\<lparr>w_db := db'\<rparr>),
                      pg\<lparr>ob_isDialogOpen := False, ob_formData := empty_obligation_form,
                         ob_saving := False\<rparr>))))"

text \<open>\<open>markAsCompleted(id)\<close>; \<open>now_iso\<close> is \<open>new Date().toISOString()\<close>.\<close>

definition completedPayload :: "string \<Rightarrow> row" where
  "completedPayload now_iso = [(''status'', String ''concluido''), (''completed_at'', String now_iso)]"

definition markAsCompleted ::
  "string \<Rightarrow> string \<Rightarrow> string \<Rightarrow> fault \<Rightarrow> fault \<Rightarrow> uuid option
     \<Rightarrow> world \<times> obligations_page \<Rightarrow> world \<times> obligations_page" where
  "markAsCompleted row_id now_iso now f_update f_select user s =
     (case s of (w, pg) \<Rightarrow>
        (let w1 = send (Update_request Obligations (completedPayload now_iso) (Some row_id)) w in
         case update_rows f_update (w_db w1) (actor_of user) Obligations now
                (completedPayload now_iso) (Some row_id) of
           Inl error \<Rightarrow>
             (toast_error ''Erro ao atualizar obrigacao''
                (console_error ''Error updating obligation:'' w1),
              pg)
         | Inr db' \<Rightarrow>
             fetchObligations f_select user
               (toast_success ''Obrigacao marcada como concluida'' (w1\<lparr>w_db := db'\<rparr>), pg)))"

section \<open>The payments page\<close>

record payment_form =
  pf_contract_id :: string
  pf_description :: string
  pf_amount :: string
  pf_due_date :: string
  pf_invoice_number :: string
  pf_notes :: string

definition empty_payment_form :: payment_form where
  "empty_payment_form =
     \<lparr>pf_contract_id = [], pf_description = [], pf_amount = [], pf_due_date = [],
      pf_invoice_number = [], pf_notes = []\<rparr>"

record payments_page =
  pay_payments :: "row list"
  pay_loading :: bool
  pay_statusFilter :: string
  pay_isDialogOpen :: bool
  pay_saving :: bool
  pay_formData :: payment_form

definition fetchPayments ::
  "fault \<Rightarrow> uuid option \<Rightarrow> world \<times> payments_page \<Rightarrow> world \<times> payments_page" where
  "fetchPayments f_select user s =
     (case s of (w, pg) \<Rightarrow>
        (let w1 = send (Select_request Payments) w in
         case select_with_contract f_select (w_db w1) (actor_of user) Payments
                [''id'', ''description'', ''amount'', ''due_date'', ''payment_date'', ''status'',
                 ''invoice_number'']
                (if pay_statusFilter pg \<noteq> ''all'' then Some (pay_statusFilter pg) else None) of
           Inl error \<Rightarrow>
             (console_error ''Error fetching payments:'' w1, pg\<lparr>pay_loading := False\<rparr>)
         | Inr data \<Rightarrow>
             (w1, pg\<lparr>pay_payments := map with_contract data, pay_loading := False\<rparr>)))"

text \<open>\<open>formData.amount.replace(/\D/g, "")\<close>: the digits of the text.\<close>

definition digits_of :: "string \<Rightarrow> string" where
  "digits_of s = filter (\<lambda>c. CHR ''0'' \<le> c \<and> c \<le> CHR ''9'') s"

definition paymentPayload :: "payment_form \<Rightarrow> int \<times> nat \<Rightarrow> uuid option \<Rightarrow> row" where
  "paymentPayload formData amount user =
     [(''contract_id'', String (pf_contract_id formData)),
      (''description'', or_null (pf_description formData)),
      (''amount'', Number (fst amount) (snd amount)),
      (''due_date'', String (pf_due_date formData)),
      (''invoice_number'', or_null (pf_invoice_number formData)),
      (''notes'', or_null (pf_notes formData)),
      (''status'', String ''pendente'')]
     @ created_by user"

text \<open>
  \<open>handleSubmit\<close> of the payments page. \<open>parseFloat(digits) / 100\<close> is \<open>NaN\<close> exactly when
  \<open>parseFloat(digits)\<close> is; dividing the decimal \<open>(m, k)\<close> by 100 gives \<open>(m, k + 2)\<close>, which
  is at most 0 exactly when \<open>m\<close> is.
\<close>

definition Payments_handleSubmit ::
  "(string \<Rightarrow> (int \<times> nat) option) \<Rightarrow> uuid option \<Rightarrow> row \<Rightarrow> fault \<Rightarrow> fault
     \<Rightarrow> world \<times> payments_page \<Rightarrow> world \<times> payments_page" where
  "Payments_handleSubmit parseFloat user defaults f_insert f_select s =
     (case s of (w, pg) \<Rightarrow>
        (let formData = pay_formData pg in
         if pf_contract_id formData = [] \<or> pf_amount formData = [] \<or> pf_due_date formData = []
         then (toast_error ''Preencha todos os campos obrigatorios'' w, pg)
         else
           (case parseFloat (digits_of (pf_amount formData)) of
              None \<Rightarrow> (toast_error ''Informe um valor valido'' w, pg)
            | Some (m, k) \<Rightarrow>
                (let amount = (m, k + 2) in
                 if m \<le> 0 then (toast_error ''Informe um valor valido'' w, pg)
                 else
                   (let payload = paymentPayload formData amount user;
                        w1 = send (Insert_request Payments payload) w
                    in case insert_row f_insert (w_db w1) (actor_of user) Payments defaults
                              payload of
                         Inl error \<Rightarrow>
                           (toast_error ''Erro ao cadastrar pagamento''
                              (console_error ''Error creating payment:'' w1),
                            pg\<lparr>pay_saving := False\<rparr>)
                       | Inr db' \<Rightarrow>
                           fetchPayments f_select user
                             (toast_success ''Pagamento cadastrado com sucesso''
                                (w1\<lparr>w_db := db'\<rparr>),
                              pg\<lparr>pay_isDialogOpen := False, pay_formData := empty_payment_form,
                                 pay_saving := False\<rparr>))))))"

text \<open>
  \<open>markAsPaid(id)\<close>; the payment date is \<open>new Date().toISOString().split("T")[0]\<close>.
\<close>

definition paidPayload :: "string \<Rightarrow> row" where
  "paidPayload now_iso =
     [(''status'', String ''pago''),
      (''payment_date'', String (takeWhile (\<lambda>c. c \<noteq> CHR ''T'') now_iso))]"

definition markAsPaid ::
  "string \<Rightarrow> string \<Rightarrow> string \<Rightarrow> fault \<Rightarrow> fault \<Rightarrow> uuid option
     \<Rightarrow> world \<times> payments_page \<Rightarrow> world \<times> payments_page" where
  "markAsPaid row_id now_iso now f_update f_select user s =
     (case s of (w, pg) \<Rightarrow>
        (let w1 = send (Update_request Payments (paidPayload now_iso) (Some row_id)) w in
         case update_rows f_update (w_db w1) (actor_of user) Payments now
                (paidPayload now_iso) (Some row_id) of
           Inl error \<Rightarrow>
             (toast_error ''Erro ao atualizar pagamento''
                (console_error ''Error updating payment:'' w1),
              pg)
         | Inr db' \<Rightarrow>
             fetchPayments f_select user
               (toast_success ''Pagamento marcado como pago'' (w1\<lparr>w_db := db'\<rparr>), pg)))"

section \<open>What a failed mutation leaves behind\<close>

text \<open>
  The two outcomes of a failed mutation, as the error-handling design states them. Either
  the error message is surfaced and the backend is as it was before the mutation
  (nothing navigated to); or the message is surfaced and the backend is in the state
  that an earlier call of the same mutation left.
\<close>

definition surfaced_and_intact :: "world \<Rightarrow> string \<Rightarrow> world \<Rightarrow> bool" where
  "surfaced_and_intact w message w' =
     (w_db w' = w_db w \<and> w_toasts w' = w_toasts w @ [Toast_error message] \<and>
      w_navigations w' = w_navigations w)"

definition surfaced_after_first_call :: "world \<Rightarrow> database \<Rightarrow> string \<Rightarrow> world \<Rightarrow> bool" where
  "surfaced_after_first_call w db1 message w' =
     (w_db w' = db1 \<and> w_toasts w' = w_toasts w @ [Toast_error message] \<and>
      w_navigations w' = w_navigations w)"

section \<open>A small backend for examples\<close>

text \<open>
  One admin (\<open>a1\<close>), one audit entry without an actor, and one document of contract \<open>c1\<close>
  with its stored object.
\<close>

definition example_entry :: AuditLog where
  "example_entry =
     \<lparr>al_id = ''l1'', al_action = ''INSERT'', al_table_name = ''contracts'',
      al_record_id = None, al_user_id = None, al_old_data = None, al_new_data = None,
      al_ip_address = None, al_created_at = 5, al_user_name = None\<rparr>"

definition example_document :: document_row where
  "example_document =
     \<lparr>d_id = ''d1'', d_contract_id = ''c1'', d_file_name = ''a.pdf'',
      d_file_path = ''c1/1700000000000_a.pdf'', d_file_type = Some ''application/pdf'',
      d_file_size = Some 1024, d_extracted_data = None, d_uploaded_by = Some ''a1'',
      d_created_at = 3\<rparr>"

definition example_database :: database where
  "example_database =
     \<lparr>db_profiles = [], db_user_roles = single_role ''a1'' Admin,
      db_notification_settings = [], db_documents = [example_document],
      db_audit_logs = [example_entry], db_storage = [''c1/1700000000000_a.pdf''],
      db_suppliers = [], db_contracts = [], db_obligations = [], db_payments = []\<rparr>"

text \<open>A supplier that passed validation, and the form of a new supplier when it mounts.\<close>

definition example_supplier :: SupplierFormData where
  "example_supplier =
     \<lparr>vs_name = ''Acme Ltda'', vs_cnpj = Some ''12.345.678/0001-90'', vs_email = Some [],
      vs_phone = None, vs_address = None, vs_city = Some ''Recife'', vs_state = Some ''PE'',
      vs_category = None, vs_contact_name = None, vs_notes = None, vs_is_active = True\<rparr>"

definition initial_supplier_form :: supplier_form where
  "initial_supplier_form =
     \<lparr>sf_loading = False, sf_saving = False,
      sf_formData =
        \<lparr>sd_name = [], sd_cnpj = [], sd_email = [], sd_phone = [], sd_address = [],
         sd_city = [], sd_state = [], sd_category = [], sd_contact_name = [], sd_notes = [],
         sd_is_active = True\<rparr>\<rparr>"

text \<open>A contract that passed validation, and the form of a new contract when it mounts.\<close>

definition example_contract :: ContractFormData where
  "example_contract =
     \<lparr>vc_contract_number = ''CT-2026-001'', vc_title = ''Limpeza predial'',
      vc_description = None, vc_contract_type = ''Servicos'', vc_status = ''rascunho'',
      vc_supplier_id = None, vc_total_value = Some ''1500.50'', vc_start_date = ''2026-01-01'',
      vc_end_date = ''2026-12-31'', vc_signature_date = None, vc_renewal_date = None,
      vc_payment_terms = None, vc_notes = None\<rparr>"

definition initial_contract_form :: contract_form where
  "initial_contract_form =
     \<lparr>cf_loading = False, cf_saving = False,
      cf_formData =
        \<lparr>cd_contract_number = [], cd_title = [], cd_description = [], cd_contract_type = [],
         cd_status = ''rascunho'', cd_supplier_id = [], cd_total_value = [], cd_start_date = [],
         cd_end_date = [], cd_signature_date = [], cd_renewal_date = [], cd_payment_terms = [],
         cd_notes = []\<rparr>\<rparr>"

text \<open>The obligations page and the payments page with their dialogs filled in.\<close>

definition example_obligations_page :: obligations_page where
  "example_obligations_page =
     \<lparr>ob_obligations = [], ob_loading = False, ob_statusFilter = ''all'', ob_isDialogOpen = True,
      ob_saving = False,
      ob_formData =
        \<lparr>of_contract_id = ''c1'', of_title = ''Relatorio mensal'', of_description = [],
         of_obligation_type = ''Pagamento'', of_due_date = ''2026-02-01'',
         of_status = ''pendente''\<rparr>\<rparr>"

definition example_payments_page :: payments_page where
  "example_payments_page =
     \<lparr>pay_payments = [], pay_loading = False, pay_statusFilter = ''all'', pay_isDialogOpen = True,
      pay_saving = False,
      pay_formData =
        \<lparr>pf_contract_id = ''c1'', pf_description = [], pf_amount = ''R$ 150,00'',
         pf_due_date = ''2026-02-01'', pf_invoice_number = [], pf_notes = []\<rparr>\<rparr>"

text \<open>\<open>parseFloat\<close> on the digit strings of the examples.\<close>

definition example_parseFloat :: "string \<Rightarrow> (int \<times> nat) option" where
  "example_parseFloat s =
     (if s = ''15000'' then Some (15000, 0)
      else if s = ''1500.50'' then Some (150050, 2)
      else None)"

text \<open>The users page with the dialog open on a user \<open>b1\<close>, and a file to upload.\<close>

definition example_user :: UserWithRole where
  "example_user =
     \<lparr>u_id = ''p2'', u_user_id = ''b1'', u_full_name = ''Bia'', u_email = ''bia@example.org'',
      u_department = None, u_phone = None, u_created_at = 8, u_role = Visualizador,
      u_role_id = []\<rparr>"

definition example_users_page :: users_page where
  "example_users_page =
     \<lparr>users = [example_user], loading = False, selectedUser = Some example_user,
      newRole = Some Gestor, isDialogOpen = True, updating = False\<rparr>"

definition example_file :: upload_file where
  "example_file = \<lparr>f_name = ''b.pdf'', f_type = ''application/pdf'', f_size = 2048\<rparr>"

section \<open>The policy matrix\<close>

lemma has_role_roles_of: "has_role urs uid r = (r \<in> roles_of urs uid)"
  by (auto simp: has_role_def roles_of_def list_ex_iff)

lemma roles_of_single_role [simp]: "roles_of (single_role uid r) uid = {r}"
  by (auto simp: roles_of_def single_role_def)

lemma rls_allows_exprs:
  "rls_allows urs (Authenticated uid) tbl cmd row =
     list_ex (\<lambda>(t, c, e). t = tbl \<and> c = cmd \<and> eval_expr urs uid row e)
       (map (\<lambda>p. (pol_table p, pol_command p, pol_expr p)) policies)"
  by (auto simp add: list_ex_iff applicable_def)

lemma rls_allows_matrix:
  assumes "tbl = Storage_objects \<longrightarrow> row_bucket_id row = ''contracts-documents''"
  shows "rls_allows urs (Authenticated uid) tbl cmd row =
         meets (roles_of urs uid) (row_user_id row = Some uid) (policy_matrix tbl cmd)"
  using assms
  apply (simp only: rls_allows_exprs)
  apply (simp add: policies_def admin_or_gestor_def has_role_roles_of)
  apply (cases tbl; cases cmd; simp)
  done

lemma allowed_roles_matrix:
  "tbl \<noteq> Storage_objects \<Longrightarrow> allowed_roles tbl cmd =
     filter (\<lambda>r. meets {r} False (policy_matrix tbl cmd)) [Admin, Gestor, Visualizador]"
  unfolding allowed_roles_def
  by (simp add: rls_allows_matrix no_row_def del: rls_allows.simps)

lemma rls_allows_admin_select:
  "rls_allows (single_role uid Admin) (Authenticated uid) Audit_logs SELECT (table_row owner)"
  by (simp add: rls_allows_matrix table_row_def del: rls_allows.simps)

lemma rls_allows_profiles_select:
  "rls_allows urs (Authenticated uid) Profiles SELECT (table_row owner)"
  by (simp add: rls_allows_matrix table_row_def del: rls_allows.simps)

lemma rls_allows_user_roles_select:
  "rls_allows urs (Authenticated uid) User_roles SELECT (table_row owner)"
  by (simp add: rls_allows_matrix table_row_def del: rls_allows.simps)

text \<open>
  C1. For every role store, authenticated actor, table, operation and row, the row-level
  security policies allow the operation exactly when the actor meets the requirement that
  the policy matrix tabulates for that table and operation: any authenticated actor, an
  actor holding the role admin, an actor holding admin or gestor, the owner of the row
  (\<open>auth.uid() = user_id\<close>), or nobody. The storage row of the matrix is about the objects
  of the bucket \<open>contracts-documents\<close>.
\<close>

theorem rls_matches_policy_matrix:
  assumes "tbl = Storage_objects \<longrightarrow> row_bucket_id row = ''contracts-documents''"
  shows "rls_allows urs (Authenticated uid) tbl cmd row =
         meets (roles_of urs uid) (row_user_id row = Some uid) (policy_matrix tbl cmd)"
  using assms by (rule rls_allows_matrix)

theorem rls_matches_policy_matrix_witness:
  "row_bucket_id \<lparr>row_user_id = None, row_bucket_id = ''contracts-documents''\<rparr>
     = ''contracts-documents'' \<and>
   rls_allows (single_role ''u1'' Gestor) (Authenticated ''u1'') Storage_objects INSERT
     \<lparr>row_user_id = None, row_bucket_id = ''contracts-documents''\<rparr> \<and>
   \<not> rls_allows (single_role ''u1'' Gestor) (Authenticated ''u1'') Storage_objects DELETE
     \<lparr>row_user_id = None, row_bucket_id = ''contracts-documents''\<rparr>"
  using
    rls_matches_policy_matrix [of Storage_objects
      "\<lparr>row_user_id = None, row_bucket_id = ''contracts-documents''\<rparr>"
      "single_role ''u1'' Gestor" "''u1''" INSERT]
    rls_matches_policy_matrix [of Storage_objects
      "\<lparr>row_user_id = None, row_bucket_id = ''contracts-documents''\<rparr>"
      "single_role ''u1'' Gestor" "''u1''" DELETE]
  by (simp del: rls_allows.simps)

text \<open>
  C2. On every domain table (suppliers, contracts, documents, obligations, payments) the
  roles allowed to delete are exactly admin, the roles allowed to insert and the roles
  allowed to update are exactly admin and gestor, and the former set is a proper subset
  of the latter two.
\<close>

theorem delete_is_stricter_than_write:
  "\<forall>tbl \<in> set domain_tables.
     set (allowed_roles tbl DELETE) = {Admin} \<and>
     set (allowed_roles tbl INSERT) = {Admin, Gestor} \<and>
     set (allowed_roles tbl UPDATE) = {Admin, Gestor} \<and>
     set (allowed_roles tbl DELETE) \<subset> set (allowed_roles tbl INSERT) \<and>
     set (allowed_roles tbl DELETE) \<subset> set (allowed_roles tbl UPDATE)"
  by (auto simp add: domain_tables_def allowed_roles_matrix)

theorem delete_is_stricter_than_write_witness:
  "Contracts \<in> set domain_tables \<and>
   set (allowed_roles Contracts DELETE) = {Admin} \<and>
   set (allowed_roles Contracts UPDATE) = {Admin, Gestor} \<and>
   set (allowed_roles Contracts DELETE) \<subset> set (allowed_roles Contracts UPDATE)"
  using delete_is_stricter_than_write [THEN bspec, of Contracts]
  by (auto simp add: domain_tables_def)

text \<open>
  C3. For every role, \<open>canEdit\<close> holds exactly for admin and gestor and \<open>isAdmin\<close> exactly
  for admin. The two flags agree with the backend's policies on \<open>suppliers\<close>: for an actor
  with that one role, \<open>canEdit\<close> is the insert and the update policy, \<open>isAdmin\<close> the delete
  policy.
\<close>

theorem capabilities_of_role:
  "canEdit r = (r = Admin \<or> r = Gestor) \<and> isAdmin r = (r = Admin) \<and>
   canEdit r = rls_allows (single_role uid r) (Authenticated uid) Suppliers INSERT row \<and>
   canEdit r = rls_allows (single_role uid r) (Authenticated uid) Suppliers UPDATE row \<and>
   isAdmin r = rls_allows (single_role uid r) (Authenticated uid) Suppliers DELETE row"
  by (cases r) (simp_all add: canEdit_def isAdmin_def rls_allows_matrix del: rls_allows.simps)

theorem capabilities_of_role_witness:
  "canEdit Gestor \<and> \<not> isAdmin Gestor \<and>
   rls_allows (single_role ''u1'' Gestor) (Authenticated ''u1'') Suppliers UPDATE no_row \<and>
   \<not> rls_allows (single_role ''u1'' Gestor) (Authenticated ''u1'') Suppliers DELETE no_row"
  using capabilities_of_role [of Gestor "''u1''" no_row]
  by (auto simp del: rls_allows.simps)

section \<open>Signup provisioning\<close>

lemma handle_new_user_fresh:
  assumes "new_identity db NEW" and "fresh_ids db g"
  shows "handle_new_user db NEW g =
           Inr (db\<lparr>db_profiles := db_profiles db @ [new_profile NEW g],
                   db_user_roles := db_user_roles db @ [new_user_role NEW g],
                   db_notification_settings :=
                     db_notification_settings db @ [new_notification_settings NEW g]\<rparr>)"
proof -
  have p: "insert_profile (new_profile NEW g) (db_profiles db)
             = Inr (db_profiles db @ [new_profile NEW g])"
    using assms
    by (auto simp: insert_profile_def new_identity_def fresh_ids_def profiles_of_def
        new_profile_def list_ex_iff filter_empty_conv image_iff)
  have r: "insert_user_role (new_user_role NEW g) (db_user_roles db)
             = Inr (db_user_roles db @ [new_user_role NEW g])"
    using assms
    by (auto simp: insert_user_role_def new_identity_def fresh_ids_def user_roles_of_def
        new_user_role_def list_ex_iff filter_empty_conv image_iff)
  have n: "insert_notification_settings (new_notification_settings NEW g)
             (db_notification_settings db)
             = Inr (db_notification_settings db @ [new_notification_settings NEW g])"
    using assms
    by (auto simp: insert_notification_settings_def new_identity_def fresh_ids_def
        notification_settings_of_def new_notification_settings_def list_ex_iff
        filter_empty_conv image_iff)
  show ?thesis
    by (simp add: handle_new_user_def p r n)
qed

lemma handle_new_user_again:
  assumes "list_ex (\<lambda>x. p_user_id x = au_id NEW) (db_profiles db)"
  shows "handle_new_user db NEW g = Inl unique_violation"
  using assms
  by (auto simp: handle_new_user_def insert_profile_def new_profile_def list_ex_iff)

text \<open>
  C5. For a new identity (no row of the three tables refers to it, and the generated ids
  are fresh), provisioning succeeds and adds exactly three rows: a profile with the
  identity's name (empty when the metadata has none) and email and with no avatar,
  department or phone; a role row with role visualizador; and a notification-settings row
  with \<open>email_enabled = true\<close>, \<open>days_before_expiry = [7, 15, 30]\<close> and
  \<open>weekly_summary = true\<close>. Afterwards the identity has exactly one row in each of the
  three tables, and the other parts of the backend are as before. Running the
  provisioning again for the same identity, with any generated values, raises a
  unique-constraint violation and leaves the tables as they are: no duplicate row.
\<close>

theorem signup_provisioning:
  assumes "new_identity db NEW" and "fresh_ids db g"
  shows "handle_new_user db NEW g = Inr (on_auth_user_created db NEW g) \<and>
    db_profiles (on_auth_user_created db NEW g) = db_profiles db @
      [\<lparr>p_id = g_profile_id g, p_user_id = au_id NEW,
        p_full_name = (case au_full_name NEW of None \<Rightarrow> [] | Some n \<Rightarrow> n),
        p_email = au_email NEW, p_avatar_url = None, p_department = None, p_phone = None,
        p_created_at = g_now g, p_updated_at = g_now g\<rparr>] \<and>
    db_user_roles (on_auth_user_created db NEW g) = db_user_roles db @
      [\<lparr>ur_id = g_role_id g, ur_user_id = au_id NEW, ur_role = Visualizador,
        ur_created_at = g_now g\<rparr>] \<and>
    db_notification_settings (on_auth_user_created db NEW g) = db_notification_settings db @
      [\<lparr>ns_id = g_settings_id g, ns_user_id = au_id NEW, ns_email_enabled = Some True,
        ns_days_before_expiry = Some [7, 15, 30], ns_weekly_summary = Some True,
        ns_created_at = g_now g, ns_updated_at = g_now g\<rparr>] \<and>
    db_documents (on_auth_user_created db NEW g) = db_documents db \<and>
    db_audit_logs (on_auth_user_created db NEW g) = db_audit_logs db \<and>
    db_storage (on_auth_user_created db NEW g) = db_storage db \<and>
    db_suppliers (on_auth_user_created db NEW g) = db_suppliers db \<and>
    db_contracts (on_auth_user_created db NEW g) = db_contracts db \<and>
    db_obligations (on_auth_user_created db NEW g) = db_obligations db \<and>
    db_payments (on_auth_user_created db NEW g) = db_payments db \<and>
    length (profiles_of (on_auth_user_created db NEW g) (au_id NEW)) = 1 \<and>
    map ur_role (user_roles_of (on_auth_user_created db NEW g) (au_id NEW)) = [Visualizador] \<and>
    length (notification_settings_of (on_auth_user_created db NEW g) (au_id NEW)) = 1 \<and>
    handle_new_user (on_auth_user_created db NEW g) NEW g' = Inl unique_violation \<and>
    on_auth_user_created (on_auth_user_created db NEW g) NEW g' = on_auth_user_created db NEW g"
proof -
  let ?db' = "on_auth_user_created db NEW g"
  have run: "handle_new_user db NEW g =
           Inr (db\<lparr>db_profiles := db_profiles db @ [new_profile NEW g],
                   db_user_roles := db_user_roles db @ [new_user_role NEW g],
                   db_notification_settings :=
                     db_notification_settings db @ [new_notification_settings NEW g]\<rparr>)"
    using assms by (rule handle_new_user_fresh)
  then have db': "?db' = db\<lparr>db_profiles := db_profiles db @ [new_profile NEW g],
                   db_user_roles := db_user_roles db @ [new_user_role NEW g],
                   db_notification_settings :=
                     db_notification_settings db @ [new_notification_settings NEW g]\<rparr>"
    by (simp add: on_auth_user_created_def)
  have again: "handle_new_user ?db' NEW g' = Inl unique_violation"
    by (rule handle_new_user_again) (simp add: db' new_profile_def)
  have "handle_new_user db NEW g = Inr ?db'"
    using run db' by simp
  moreover have "db_profiles ?db' = db_profiles db @ [new_profile NEW g]"
    and "db_user_roles ?db' = db_user_roles db @ [new_user_role NEW g]"
    and "db_notification_settings ?db' =
           db_notification_settings db @ [new_notification_settings NEW g]"
    and "db_documents ?db' = db_documents db"
    and "db_audit_logs ?db' = db_audit_logs db"
    and "db_storage ?db' = db_storage db"
    and "db_suppliers ?db' = db_suppliers db"
    and "db_contracts ?db' = db_contracts db"
    and "db_obligations ?db' = db_obligations db"
    and "db_payments ?db' = db_payments db"
    by (simp_all add: db')
  moreover have "profiles_of ?db' (au_id NEW) = [new_profile NEW g]"
    using assms(1) by (simp add: db' profiles_of_def new_identity_def new_profile_def)
  moreover have "user_roles_of ?db' (au_id NEW) = [new_user_role NEW g]"
    using assms(1) by (simp add: db' user_roles_of_def new_identity_def new_user_role_def)
  moreover have "notification_settings_of ?db' (au_id NEW) = [new_notification_settings NEW g]"
    using assms(1)
    by (simp add: db' notification_settings_of_def new_identity_def
        new_notification_settings_def)
  moreover have "on_auth_user_created ?db' NEW g' = ?db'"
    using again by (simp add: on_auth_user_created_def [of ?db'])
  ultimately show ?thesis
    using again
    by (simp add: new_profile_def new_user_role_def new_notification_settings_def)
qed

theorem signup_provisioning_witness:
  "new_identity empty_database
     \<lparr>au_id = ''u1'', au_email = ''ana@example.org'', au_full_name = Some ''Ana''\<rparr> \<and>
   fresh_ids empty_database
     \<lparr>g_profile_id = ''p1'', g_role_id = ''r1'', g_settings_id = ''s1'', g_now = 7\<rparr> \<and>
   map p_full_name (db_profiles (on_auth_user_created empty_database
     \<lparr>au_id = ''u1'', au_email = ''ana@example.org'', au_full_name = Some ''Ana''\<rparr>
     \<lparr>g_profile_id = ''p1'', g_role_id = ''r1'', g_settings_id = ''s1'', g_now = 7\<rparr>))
     = [''Ana''] \<and>
   map ur_role (db_user_roles (on_auth_user_created empty_database
     \<lparr>au_id = ''u1'', au_email = ''ana@example.org'', au_full_name = Some ''Ana''\<rparr>
     \<lparr>g_profile_id = ''p1'', g_role_id = ''r1'', g_settings_id = ''s1'', g_now = 7\<rparr>))
     = [Visualizador] \<and>
   handle_new_user (on_auth_user_created empty_database
     \<lparr>au_id = ''u1'', au_email = ''ana@example.org'', au_full_name = Some ''Ana''\<rparr>
     \<lparr>g_profile_id = ''p1'', g_role_id = ''r1'', g_settings_id = ''s1'', g_now = 7\<rparr>)
     \<lparr>au_id = ''u1'', au_email = ''ana@example.org'', au_full_name = Some ''Ana''\<rparr>
     \<lparr>g_profile_id = ''p2'', g_role_id = ''r2'', g_settings_id = ''s2'', g_now = 8\<rparr>
     = Inl unique_violation"
proof -
  let ?u = "\<lparr>au_id = ''u1'', au_email = ''ana@example.org'', au_full_name = Some ''Ana''\<rparr>"
  let ?g = "\<lparr>g_profile_id = ''p1'', g_role_id = ''r1'', g_settings_id = ''s1'', g_now = 7\<rparr>"
  let ?g' = "\<lparr>g_profile_id = ''p2'', g_role_id = ''r2'', g_settings_id = ''s2'', g_now = 8\<rparr>"
  have new: "new_identity empty_database ?u"
    by (simp add: new_identity_def empty_database_def profiles_of_def user_roles_of_def
        notification_settings_of_def)
  have fresh: "fresh_ids empty_database ?g"
    by (simp add: fresh_ids_def empty_database_def)
  have db: "db_profiles empty_database = []" "db_user_roles empty_database = []"
    by (simp_all add: empty_database_def)
  show ?thesis
    using new fresh signup_provisioning [OF new fresh, of ?g'] db
    by simp
qed

section \<open>Role resolution and the users page\<close>

lemma get_user_role_rows_length: "length (get_user_role_rows urs uid) \<le> 1"
  by (simp add: get_user_role_rows_def)

lemma get_user_role_no_row:
  "\<not> list_ex (\<lambda>x. ur_user_id x = uid) urs \<Longrightarrow> get_user_role urs uid = None"
  by (simp add: get_user_role_def get_user_role_rows_def list_ex_iff filter_False)

lemma usersWithRoles_fallback:
  assumes "\<not> list_ex (\<lambda>x. ur_user_id x = uid) roles"
    and "u \<in> set (usersWithRoles profiles roles)"
    and "u_user_id u = uid"
  shows "u_role u = Visualizador \<and> u_role_id u = []"
proof -
  from assms(1) have "find (\<lambda>r. ur_user_id r = uid) roles = None"
    by (simp add: find_None_iff list_ex_iff)
  with assms(2,3) show ?thesis
    by (auto simp: usersWithRoles_def Let_def)
qed

lemma update_user_roles_no_row:
  assumes "\<not> list_ex (\<lambda>x. ur_user_id x = target) (db_user_roles db)"
  shows "update_user_roles None db actor nr target = Inr db"
proof -
  let ?hit = "\<lambda>r. ur_user_id r = target \<and>
     rls_allows (db_user_roles db) actor User_roles UPDATE (table_row (Some (ur_user_id r)))"
  from assms have none: "\<And>r. r \<in> set (db_user_roles db) \<Longrightarrow> ur_user_id r \<noteq> target"
    by (auto simp: list_ex_iff)
  have "map (\<lambda>r. if ?hit r then r\<lparr>ur_role := nr\<rparr> else r) (db_user_roles db)
               = db_user_roles db"
    by (rule map_idI) (simp add: none del: rls_allows.simps)
  moreover from none have "\<not> list_ex ?hit (db_user_roles db)"
    by (auto simp: list_ex_iff)
  ultimately show ?thesis
    by (simp add: update_user_roles_def Let_def del: rls_allows.simps)
qed

lemma select_user_roles_no_row:
  assumes "\<not> list_ex (\<lambda>x. ur_user_id x = uid) (db_user_roles db)"
    and "select_user_roles None db actor = Inr roles"
  shows "\<not> list_ex (\<lambda>x. ur_user_id x = uid) roles"
  using assms by (auto simp: select_user_roles_def list_ex_iff)

text \<open>
  C4. Role resolution yields at most one role: the backend's \<open>get_user_role\<close> query
  returns at most one row. When the actor has no row in \<open>user_roles\<close>, or the resolution
  query fails, the resolved role is visualizador, and neither \<open>canEdit\<close> nor \<open>isAdmin\<close>
  holds for it. The users page does the same for every listed user without a role row:
  the role shown is visualizador, with an empty role id.
\<close>

theorem role_resolution_fails_closed:
  "length (get_user_role_rows urs uid) \<le> 1 \<and>
   (failure \<noteq> None \<or> \<not> list_ex (\<lambda>x. ur_user_id x = uid) urs \<longrightarrow>
      resolve_role failure urs uid = Visualizador \<and>
      \<not> canEdit (resolve_role failure urs uid) \<and>
      \<not> isAdmin (resolve_role failure urs uid)) \<and>
   (\<not> list_ex (\<lambda>x. ur_user_id x = uid) urs \<longrightarrow>
      get_user_role urs uid = None \<and>
      (\<forall>u \<in> set (usersWithRoles profiles urs).
         u_user_id u = uid \<longrightarrow>
           u_role u = Visualizador \<and> u_role_id u = [] \<and> \<not> canEdit (u_role u)))"
proof -
  have one: "length (get_user_role_rows urs uid) \<le> 1"
    by (rule get_user_role_rows_length)
  have closed: "resolve_role failure urs uid = Visualizador"
    if "failure \<noteq> None \<or> \<not> list_ex (\<lambda>x. ur_user_id x = uid) urs"
    using that by (auto simp: resolve_role_def get_user_role_no_row split: option.splits)
  have page: "u_role u = Visualizador \<and> u_role_id u = [] \<and> \<not> canEdit (u_role u)"
    if "\<not> list_ex (\<lambda>x. ur_user_id x = uid) urs"
      and "u \<in> set (usersWithRoles profiles urs)" and "u_user_id u = uid" for u
    using usersWithRoles_fallback [OF that] by (simp add: canEdit_def)
  show ?thesis
    using one closed page by (auto simp: canEdit_def isAdmin_def get_user_role_no_row)
qed

theorem role_resolution_fails_closed_witness:
  "\<not> list_ex (\<lambda>x. ur_user_id x = ''u2'') (single_role ''u1'' Admin) \<and>
   resolve_role None (single_role ''u1'' Admin) ''u2'' = Visualizador \<and>
   \<not> canEdit (resolve_role None (single_role ''u1'' Admin) ''u2'') \<and>
   resolve_role (Some (Backend_error ''timeout'')) (single_role ''u1'' Admin) ''u1''
     = Visualizador \<and>
   get_user_role (single_role ''u1'' Admin) ''u2'' = None"
proof -
  have no_row: "\<not> list_ex (\<lambda>x. ur_user_id x = ''u2'') (single_role ''u1'' Admin)"
    by (simp add: single_role_def)
  show ?thesis
    using no_row
      role_resolution_fails_closed [of "single_role ''u1'' Admin" "''u2''" None "[]"]
      role_resolution_fails_closed [of "single_role ''u1'' Admin" "''u1''"
        "Some (Backend_error ''timeout'')" "[]"]
    by (simp add: canEdit_def)
qed

text \<open>
  C8. When the target of \<open>openRoleDialog\<close> is the signed-in user, the handler shows an
  error toast and changes nothing else: the page's state is as before (the dialog is not
  opened, no user is selected), no request is sent and the backend is untouched. As no
  user gets selected, a following \<open>handleRoleChange\<close> returns at once, again without a
  request.
\<close>

theorem own_role_change_is_rejected:
  assumes "user = Some (u_user_id userToEdit)"
  shows "openRoleDialog user userToEdit (w, pg) =
           (toast_error ''Voce nao pode alterar sua propria permissao'' w, pg) \<and>
         w_requests (fst (openRoleDialog user userToEdit (w, pg))) = w_requests w \<and>
         w_db (fst (openRoleDialog user userToEdit (w, pg))) = w_db w \<and>
         w_toasts (fst (openRoleDialog user userToEdit (w, pg))) =
           w_toasts w @ [Toast_error ''Voce nao pode alterar sua propria permissao''] \<and>
         isDialogOpen (snd (openRoleDialog user userToEdit (w, pg))) = isDialogOpen pg \<and>
         selectedUser (snd (openRoleDialog user userToEdit (w, pg))) = selectedUser pg \<and>
         (selectedUser pg = None \<longrightarrow>
            handleRoleChange f_update f_profiles f_roles user
              (openRoleDialog user userToEdit (w, pg)) =
            openRoleDialog user userToEdit (w, pg))"
  using assms
  by (simp add: openRoleDialog_def toast_error_def handleRoleChange_def)

theorem own_role_change_is_rejected_witness:
  "w_requests (fst (openRoleDialog (Some ''a1'')
      \<lparr>u_id = ''p1'', u_user_id = ''a1'', u_full_name = ''Ana'', u_email = ''ana@example.org'',
        u_department = None, u_phone = None, u_created_at = 7, u_role = Admin,
        u_role_id = ''r1''\<rparr>
      (world_of empty_database, initial_users_page))) = [] \<and>
   isDialogOpen (snd (openRoleDialog (Some ''a1'')
      \<lparr>u_id = ''p1'', u_user_id = ''a1'', u_full_name = ''Ana'', u_email = ''ana@example.org'',
        u_department = None, u_phone = None, u_created_at = 7, u_role = Admin,
        u_role_id = ''r1''\<rparr>
      (world_of empty_database, initial_users_page))) = False \<and>
   w_toasts (fst (openRoleDialog (Some ''a1'')
      \<lparr>u_id = ''p1'', u_user_id = ''a1'', u_full_name = ''Ana'', u_email = ''ana@example.org'',
        u_department = None, u_phone = None, u_created_at = 7, u_role = Admin,
        u_role_id = ''r1''\<rparr>
      (world_of empty_database, initial_users_page))) =
     [Toast_error ''Voce nao pode alterar sua propria permissao''] \<and>
   w_requests (fst (handleRoleChange None None None (Some ''a1'')
     (openRoleDialog (Some ''a1'')
      \<lparr>u_id = ''p1'', u_user_id = ''a1'', u_full_name = ''Ana'', u_email = ''ana@example.org'',
        u_department = None, u_phone = None, u_created_at = 7, u_role = Admin,
        u_role_id = ''r1''\<rparr>
      (world_of empty_database, initial_users_page)))) = []"
proof -
  let ?t = "\<lparr>u_id = ''p1'', u_user_id = ''a1'', u_full_name = ''Ana'',
     u_email = ''ana@example.org'', u_department = None, u_phone = None, u_created_at = 7,
     u_role = Admin, u_role_id = ''r1''\<rparr>"
  have self: "Some ''a1'' = Some (u_user_id ?t)"
    by simp
  have closed: "selectedUser initial_users_page = None" "isDialogOpen initial_users_page = False"
    by (simp_all add: initial_users_page_def)
  have quiet: "w_requests (world_of empty_database) = []" "w_toasts (world_of empty_database) = []"
    by (simp_all add: world_of_def)
  show ?thesis
    using own_role_change_is_rejected [OF self, of "world_of empty_database"
        initial_users_page None None None] closed quiet
    by (auto simp add: toast_error_def)
qed

lemma select_profiles_authenticated:
  "select_profiles None db (Authenticated a) = Inr (sort_key p_full_name (db_profiles db))"
  by (simp add: select_profiles_def rls_allows_profiles_select del: rls_allows.simps)

lemma select_user_roles_authenticated:
  "select_user_roles None db (Authenticated a) = Inr (db_user_roles db)"
  by (simp add: select_user_roles_def rls_allows_user_roles_select del: rls_allows.simps)

lemma usersWithRoles_lists_profile:
  assumes "list_ex (\<lambda>p. p_user_id p = uid) profiles"
    and "\<not> list_ex (\<lambda>x. ur_user_id x = uid) roles"
  shows "list_ex (\<lambda>u. u_user_id u = uid \<and> u_role u = Visualizador \<and> u_role_id u = [])
           (usersWithRoles profiles roles)"
proof -
  from assms(1) obtain p where p: "p \<in> set profiles" "p_user_id p = uid"
    by (auto simp: list_ex_iff)
  from assms(2) have none: "find (\<lambda>r. ur_user_id r = uid) roles = None"
    by (simp add: find_None_iff list_ex_iff)
  let ?u = "\<lparr>u_id = p_id p, u_user_id = p_user_id p, u_full_name = p_full_name p,
     u_email = p_email p, u_department = p_department p, u_phone = p_phone p,
     u_created_at = p_created_at p, u_role = Visualizador, u_role_id = []\<rparr>"
  have "?u \<in> set (usersWithRoles profiles roles)"
    using p none by (force simp: usersWithRoles_def Let_def)
  moreover have "u_user_id ?u = uid \<and> u_role ?u = Visualizador \<and> u_role_id ?u = []"
    using p by simp
  ultimately show ?thesis
    unfolding list_ex_iff by blast
qed

text \<open>
  C10. An admin (or any signed-in user) submits a role change for a selected user who has
  no row in \<open>user_roles\<close>, and no call fails in transit. The update matches no row and
  the backend reports no error: the tables are unchanged, the success toast is shown and
  nothing else (no error toast, nothing on the console), the dialog is closed and the
  selection cleared, and the list is fetched again. In the new list, and for the
  backend's \<open>get_user_role\<close>, the target still has no role: its role is the visualizador
  fallback. For a signed-in actor the new list is the combination of all profiles, by
  name, with all role rows; a target that has a profile is in it, with the role
  visualizador and an empty role id.
\<close>

theorem role_change_without_row_reports_success:
  assumes "selectedUser pg = Some su" and "newRole pg = Some nr"
    and "\<not> list_ex (\<lambda>x. ur_user_id x = u_user_id su) (db_user_roles (w_db w))"
  shows "w_db (fst (handleRoleChange None None None user (w, pg))) = w_db w \<and>
    w_toasts (fst (handleRoleChange None None None user (w, pg))) =
      w_toasts w @ [Toast_success
        (''Permissao de '' @ u_full_name su @ '' atualizada para '' @ roleLabels nr)] \<and>
    w_console (fst (handleRoleChange None None None user (w, pg))) = w_console w \<and>
    w_requests (fst (handleRoleChange None None None user (w, pg))) =
      w_requests w @ [Update_user_roles_request (u_user_id su) nr,
                      Select_request Profiles, Select_request User_roles] \<and>
    isDialogOpen (snd (handleRoleChange None None None user (w, pg))) = False \<and>
    selectedUser (snd (handleRoleChange None None None user (w, pg))) = None \<and>
    updating (snd (handleRoleChange None None None user (w, pg))) = False \<and>
    (\<forall>u \<in> set (users (snd (handleRoleChange None None None user (w, pg)))).
       u_user_id u = u_user_id su \<longrightarrow> u_role u = Visualizador) \<and>
    get_user_role (db_user_roles (w_db (fst (handleRoleChange None None None user (w, pg)))))
      (u_user_id su) = None \<and>
    (user \<noteq> None \<longrightarrow>
       users (snd (handleRoleChange None None None user (w, pg))) =
         usersWithRoles (sort_key p_full_name (db_profiles (w_db w))) (db_user_roles (w_db w)) \<and>
       loading (snd (handleRoleChange None None None user (w, pg))) = False) \<and>
    (user \<noteq> None \<and> list_ex (\<lambda>p. p_user_id p = u_user_id su) (db_profiles (w_db w)) \<longrightarrow>
       list_ex (\<lambda>u. u_user_id u = u_user_id su \<and> u_role u = Visualizador \<and> u_role_id u = [])
         (users (snd (handleRoleChange None None None user (w, pg)))))"
proof -
  let ?w1 = "send (Update_user_roles_request (u_user_id su) nr) w"
  let ?msg = "''Permissao de '' @ u_full_name su @ '' atualizada para '' @ roleLabels nr"
  let ?w2 = "toast_success ?msg ?w1"
  let ?pg2 = "pg\<lparr>isDialogOpen := False, selectedUser := None, newRole := None,
                  updating := False\<rparr>"
  have db1: "w_db ?w1 = w_db w"
    by (simp add: send_def)
  have upd: "update_user_roles None (w_db ?w1) (actor_of user) nr (u_user_id su) = Inr (w_db w)"
    using assms(3) by (simp add: db1 update_user_roles_no_row)
  have "?w1\<lparr>w_db := w_db w\<rparr> = ?w1"
    by (simp add: send_def)
  with upd have run: "handleRoleChange None None None user (w, pg) =
      fetchUsers None None user (?w2, ?pg2)"
    using assms(1,2) by (simp add: handleRoleChange_def Let_def)
  obtain profiles where profiles: "select_profiles None (w_db w) (actor_of user) = Inr profiles"
    by (simp add: select_profiles_def)
  obtain roles where roles: "select_user_roles None (w_db w) (actor_of user) = Inr roles"
    by (simp add: select_user_roles_def)
  have fetch: "fetchUsers None None user (?w2, ?pg2) =
      (send (Select_request User_roles) (send (Select_request Profiles) ?w2),
       ?pg2\<lparr>users := usersWithRoles profiles roles, loading := False\<rparr>)"
    using profiles roles
    by (simp add: fetchUsers_def Let_def send_def toast_success_def)
  have no_row: "\<not> list_ex (\<lambda>x. ur_user_id x = u_user_id su) roles"
    using assms(3) roles by (rule select_user_roles_no_row)
  have fallback: "\<forall>u \<in> set (usersWithRoles profiles roles).
      u_user_id u = u_user_id su \<longrightarrow> u_role u = Visualizador"
    using usersWithRoles_fallback [OF no_row] by blast
  have none: "get_user_role (db_user_roles (w_db w)) (u_user_id su) = None"
    using assms(3) by (rule get_user_role_no_row)
  have signed_in: "profiles = sort_key p_full_name (db_profiles (w_db w)) \<and>
      roles = db_user_roles (w_db w)" if "user \<noteq> None"
  proof -
    from that obtain a where "actor_of user = Authenticated a"
      by (auto simp: actor_of_def)
    with profiles roles show ?thesis
      by (simp add: select_profiles_authenticated select_user_roles_authenticated)
  qed
  have listed: "list_ex (\<lambda>u. u_user_id u = u_user_id su \<and> u_role u = Visualizador \<and>
        u_role_id u = []) (usersWithRoles profiles roles)"
    if "user \<noteq> None" and "list_ex (\<lambda>p. p_user_id p = u_user_id su) (db_profiles (w_db w))"
  proof -
    from that have "list_ex (\<lambda>p. p_user_id p = u_user_id su) profiles"
      using signed_in by (simp add: list_ex_iff)
    then show ?thesis
      using no_row by (rule usersWithRoles_lists_profile)
  qed
  have result: "handleRoleChange None None None user (w, pg) =
      (send (Select_request User_roles) (send (Select_request Profiles) ?w2),
       ?pg2\<lparr>users := usersWithRoles profiles roles, loading := False\<rparr>)"
    by (simp only: run fetch)
  have first: "w_db (fst (handleRoleChange None None None user (w, pg))) = w_db w \<and>
    w_toasts (fst (handleRoleChange None None None user (w, pg))) = w_toasts w @ [Toast_success ?msg] \<and>
    w_console (fst (handleRoleChange None None None user (w, pg))) = w_console w \<and>
    w_requests (fst (handleRoleChange None None None user (w, pg))) =
      w_requests w @ [Update_user_roles_request (u_user_id su) nr,
                      Select_request Profiles, Select_request User_roles] \<and>
    isDialogOpen (snd (handleRoleChange None None None user (w, pg))) = False \<and>
    selectedUser (snd (handleRoleChange None None None user (w, pg))) = None \<and>
    updating (snd (handleRoleChange None None None user (w, pg))) = False \<and>
    loading (snd (handleRoleChange None None None user (w, pg))) = False \<and>
    users (snd (handleRoleChange None None None user (w, pg))) = usersWithRoles profiles roles"
    unfolding result by (simp add: send_def toast_success_def)
  show ?thesis
    using first fallback none signed_in listed by simp
qed

theorem role_change_without_row_reports_success_witness:
  "\<not> list_ex (\<lambda>x. ur_user_id x = ''b1'')
       (db_user_roles (w_db (world_of (empty_database
          \<lparr>db_profiles := [new_profile
              \<lparr>au_id = ''b1'', au_email = ''bia@example.org'', au_full_name = Some ''Bia''\<rparr>
              \<lparr>g_profile_id = ''p2'', g_role_id = ''r2'', g_settings_id = ''s2'', g_now = 8\<rparr>],
            db_user_roles := single_role ''a1'' Admin\<rparr>)))) \<and>
   w_toasts (fst (handleRoleChange None None None (Some ''a1'')
     (world_of (empty_database
          \<lparr>db_profiles := [new_profile
              \<lparr>au_id = ''b1'', au_email = ''bia@example.org'', au_full_name = Some ''Bia''\<rparr>
              \<lparr>g_profile_id = ''p2'', g_role_id = ''r2'', g_settings_id = ''s2'', g_now = 8\<rparr>],
            db_user_roles := single_role ''a1'' Admin\<rparr>),
      initial_users_page\<lparr>selectedUser := Some
         \<lparr>u_id = ''p2'', u_user_id = ''b1'', u_full_name = ''Bia'', u_email = ''bia@example.org'',
           u_department = None, u_phone = None, u_created_at = 8, u_role = Visualizador,
           u_role_id = []\<rparr>,
         newRole := Some Gestor, isDialogOpen := True\<rparr>))) =
     [Toast_success ''Permissao de Bia atualizada para Gestor''] \<and>
   \<not> isDialogOpen (snd (handleRoleChange None None None (Some ''a1'')
     (world_of (empty_database
          \<lparr>db_profiles := [new_profile
              \<lparr>au_id = ''b1'', au_email = ''bia@example.org'', au_full_name = Some ''Bia''\<rparr>
              \<lparr>g_profile_id = ''p2'', g_role_id = ''r2'', g_settings_id = ''s2'', g_now = 8\<rparr>],
            db_user_roles := single_role ''a1'' Admin\<rparr>),
      initial_users_page\<lparr>selectedUser := Some
         \<lparr>u_id = ''p2'', u_user_id = ''b1'', u_full_name = ''Bia'', u_email = ''bia@example.org'',
           u_department = None, u_phone = None, u_created_at = 8, u_role = Visualizador,
           u_role_id = []\<rparr>,
         newRole := Some Gestor, isDialogOpen := True\<rparr>))) \<and>
   users (snd (handleRoleChange None None None (Some ''a1'')
     (world_of (empty_database
          \<lparr>db_profiles := [new_profile
              \<lparr>au_id = ''b1'', au_email = ''bia@example.org'', au_full_name = Some ''Bia''\<rparr>
              \<lparr>g_profile_id = ''p2'', g_role_id = ''r2'', g_settings_id = ''s2'', g_now = 8\<rparr>],
            db_user_roles := single_role ''a1'' Admin\<rparr>),
      initial_users_page\<lparr>selectedUser := Some
         \<lparr>u_id = ''p2'', u_user_id = ''b1'', u_full_name = ''Bia'', u_email = ''bia@example.org'',
           u_department = None, u_phone = None, u_created_at = 8, u_role = Visualizador,
           u_role_id = []\<rparr>,
         newRole := Some Gestor, isDialogOpen := True\<rparr>))) =
     [\<lparr>u_id = ''p2'', u_user_id = ''b1'', u_full_name = ''Bia'', u_email = ''bia@example.org'',
       u_department = None, u_phone = None, u_created_at = 8, u_role = Visualizador,
       u_role_id = []\<rparr>]"
proof -
  let ?su = "\<lparr>u_id = ''p2'', u_user_id = ''b1'', u_full_name = ''Bia'',
     u_email = ''bia@example.org'', u_department = None, u_phone = None, u_created_at = 8,
     u_role = Visualizador, u_role_id = []\<rparr>"
  let ?p = "new_profile
     \<lparr>au_id = ''b1'', au_email = ''bia@example.org'', au_full_name = Some ''Bia''\<rparr>
     \<lparr>g_profile_id = ''p2'', g_role_id = ''r2'', g_settings_id = ''s2'', g_now = 8\<rparr>"
  let ?w = "world_of (empty_database\<lparr>db_profiles := [?p],
     db_user_roles := single_role ''a1'' Admin\<rparr>)"
  let ?pg = "initial_users_page\<lparr>selectedUser := Some ?su, newRole := Some Gestor,
     isDialogOpen := True\<rparr>"
  have sel: "selectedUser ?pg = Some ?su" and new: "newRole ?pg = Some Gestor"
    by simp_all
  have roles: "db_user_roles (w_db ?w) = single_role ''a1'' Admin"
    and profiles: "db_profiles (w_db ?w) = [?p]"
    by (simp_all add: world_of_def)
  have no_row: "\<not> list_ex (\<lambda>x. ur_user_id x = u_user_id ?su) (db_user_roles (w_db ?w))"
    unfolding roles by (simp add: single_role_def)
  have quiet: "w_toasts ?w = []"
    by (simp add: world_of_def)
  have list: "usersWithRoles (sort_key p_full_name [?p]) (single_role ''a1'' Admin) = [?su]"
    by (simp add: usersWithRoles_def new_profile_def single_role_def)
  have signed_in: "Some ''a1'' \<noteq> None"
    by simp
  show ?thesis
    using no_row role_change_without_row_reports_success [OF sel new no_row, of "Some ''a1''"]
      quiet signed_in list
    unfolding roles profiles
    by simp
qed

section \<open>The audit page\<close>

lemma select_audit_logs_bound:
  "select_audit_logs fault db actor = Inr ls \<Longrightarrow> length ls \<le> 500"
  by (auto simp: select_audit_logs_def split: option.splits)

lemma select_audit_logs_newest_first:
  assumes "select_audit_logs fault db actor = Inr ls"
  shows "sorted_wrt (\<lambda>a b. b \<le> a) (map al_created_at ls)"
proof -
  from assms obtain rows where ls: "ls = take 500 (rev (sort_key al_created_at rows))"
    by (auto simp: select_audit_logs_def split: option.splits)
  have "sorted (map al_created_at (sort_key al_created_at rows))"
    by (rule sorted_sort_key)
  then have "sorted_wrt (\<lambda>a b. b \<le> a) (rev (map al_created_at (sort_key al_created_at rows)))"
    by (simp add: sorted_wrt_rev)
  then have "sorted_wrt (\<lambda>a b. b \<le> a)
               (take 500 (rev (map al_created_at (sort_key al_created_at rows))))"
    by (rule sorted_wrt_take)
  then show ?thesis
    by (simp add: ls take_map rev_map)
qed

lemma logsWithUserNames_created_at:
  "map al_created_at (logsWithUserNames profiles logs) = map al_created_at logs"
  by (simp add: logsWithUserNames_def Let_def)

lemma logsWithUserNames_length:
  "length (logsWithUserNames profiles logs) = length logs"
  by (simp add: logsWithUserNames_def)

lemma logsWithUserNames_no_profile:
  assumes "log \<in> set (logsWithUserNames profiles logs)"
    and "\<not> list_ex (\<lambda>p. Some (pr_user_id p) = al_user_id log) profiles"
  shows "al_user_name log = Some ''Sistema''"
proof -
  from assms(1) obtain l where
    log: "log = l\<lparr>al_user_name := Some
      (case find (\<lambda>p. Some (pr_user_id p) = al_user_id l) profiles of
         None \<Rightarrow> ''Sistema''
       | Some p \<Rightarrow> if pr_full_name p = [] then ''Sistema'' else pr_full_name p)\<rparr>"
    by (auto simp: logsWithUserNames_def Let_def)
  then have "al_user_id log = al_user_id l"
    by simp
  with assms(2) have "find (\<lambda>p. Some (pr_user_id p) = al_user_id l) profiles = None"
    by (simp add: find_None_iff list_ex_iff)
  with log show ?thesis
    by simp
qed

lemma fetchData_success:
  assumes "select_audit_logs None (w_db w) (actor_of user) = Inr ls"
    and "select_profile_names None (w_db w) (actor_of user) = Inr ps"
  shows "fetchData None None user (w, pg) =
           (send (Select_request Profiles) (send (Select_request Audit_logs) w),
            pg\<lparr>ap_profiles := ps, ap_logs := logsWithUserNames ps ls, ap_loading := False\<rparr>)"
  using assms by (simp add: fetchData_def Let_def send_def)

lemma fetchData_failure:
  assumes "f_logs \<noteq> None \<or> f_profiles \<noteq> None"
  shows "fetchData f_logs f_profiles user (w, pg) =
           (toast_error ''Erro ao carregar logs de auditoria''
              (console_error ''Error fetching audit logs:''
                 (send (Select_request Profiles) (send (Select_request Audit_logs) w))),
            pg\<lparr>ap_loading := False\<rparr>)"
  using assms
  by (auto simp: fetchData_def Let_def fetchData_failed_def select_audit_logs_def
      select_profile_names_def split: option.splits sum.splits)

text \<open>
  C6, as the code has it. When both queries succeed, the page holds at most 500 entries,
  ordered by creation time descending, and every entry whose actor id has no matching
  profile among the fetched profiles (in particular every entry without an actor id)
  has the actor label \<open>"Sistema"\<close>. When a query fails, the entries held before are kept
  and the error toast is shown.
\<close>

theorem audit_query:
  "length (ap_logs (snd (fetchData None None user (w, pg)))) \<le> 500 \<and>
   sorted_wrt (\<lambda>a b. b \<le> a)
     (map al_created_at (ap_logs (snd (fetchData None None user (w, pg))))) \<and>
   (\<forall>log \<in> set (ap_logs (snd (fetchData None None user (w, pg)))).
      \<not> list_ex (\<lambda>p. Some (pr_user_id p) = al_user_id log)
           (ap_profiles (snd (fetchData None None user (w, pg)))) \<longrightarrow>
      al_user_name log = Some ''Sistema'') \<and>
   (\<forall>log \<in> set (ap_logs (snd (fetchData None None user (w, pg)))).
      al_user_id log = None \<longrightarrow> al_user_name log = Some ''Sistema'') \<and>
   (f_logs \<noteq> None \<or> f_profiles \<noteq> None \<longrightarrow>
      ap_logs (snd (fetchData f_logs f_profiles user (w, pg))) = ap_logs pg \<and>
      w_toasts (fst (fetchData f_logs f_profiles user (w, pg))) =
        w_toasts w @ [Toast_error ''Erro ao carregar logs de auditoria''])"
proof -
  obtain ls where ls: "select_audit_logs None (w_db w) (actor_of user) = Inr ls"
    by (simp add: select_audit_logs_def)
  obtain ps where ps: "select_profile_names None (w_db w) (actor_of user) = Inr ps"
    by (simp add: select_profile_names_def)
  have logs: "ap_logs (snd (fetchData None None user (w, pg))) = logsWithUserNames ps ls"
    and profiles: "ap_profiles (snd (fetchData None None user (w, pg))) = ps"
    by (simp_all add: fetchData_success [OF ls ps])
  have bound: "length (logsWithUserNames ps ls) \<le> 500"
    using select_audit_logs_bound [OF ls] by (simp add: logsWithUserNames_length)
  have order: "sorted_wrt (\<lambda>a b. b \<le> a) (map al_created_at (logsWithUserNames ps ls))"
    using select_audit_logs_newest_first [OF ls] by (simp add: logsWithUserNames_created_at)
  have label: "al_user_name log = Some ''Sistema''"
    if "log \<in> set (logsWithUserNames ps ls)"
      and "\<not> list_ex (\<lambda>p. Some (pr_user_id p) = al_user_id log) ps" for log
    using that by (rule logsWithUserNames_no_profile)
  have no_actor: "al_user_name log = Some ''Sistema''"
    if "log \<in> set (logsWithUserNames ps ls)" and "al_user_id log = None" for log
    using that by (intro label) (simp_all add: list_ex_iff)
  have failure: "ap_logs (snd (fetchData f_logs f_profiles user (w, pg))) = ap_logs pg \<and>
      w_toasts (fst (fetchData f_logs f_profiles user (w, pg))) =
        w_toasts w @ [Toast_error ''Erro ao carregar logs de auditoria'']"
    if "f_logs \<noteq> None \<or> f_profiles \<noteq> None"
    by (simp add: fetchData_failure [OF that] toast_error_def console_error_def send_def)
  show ?thesis
    unfolding logs profiles using bound order label no_actor failure by blast
qed

lemma example_fetchData:
  "fetchData None None (Some ''a1'') (world_of example_database, initial_audit_page) =
     (send (Select_request Profiles) (send (Select_request Audit_logs) (world_of example_database)),
      initial_audit_page\<lparr>ap_profiles := [],
        ap_logs := [example_entry\<lparr>al_user_name := Some ''Sistema''\<rparr>],
        ap_loading := False\<rparr>)"
proof -
  have db: "w_db (world_of example_database) = example_database"
    by (simp add: world_of_def)
  have ls: "select_audit_logs None (w_db (world_of example_database)) (actor_of (Some ''a1''))
              = Inr [example_entry]"
    unfolding db
    by (simp add: select_audit_logs_def example_database_def actor_of_def
        rls_allows_admin_select del: rls_allows.simps)
  have ps: "select_profile_names None (w_db (world_of example_database)) (actor_of (Some ''a1''))
              = Inr []"
    unfolding db
    by (simp add: select_profile_names_def example_database_def)
  show ?thesis
    by (simp add: fetchData_success [OF ls ps] logsWithUserNames_def)
qed

theorem audit_query_witness:
  "example_entry\<lparr>al_user_name := Some ''Sistema''\<rparr> \<in> set (ap_logs (snd
     (fetchData None None (Some ''a1'') (world_of example_database, initial_audit_page)))) \<and>
   al_user_id (example_entry\<lparr>al_user_name := Some ''Sistema''\<rparr>) = None \<and>
   length (ap_logs (snd
     (fetchData None None (Some ''a1'') (world_of example_database, initial_audit_page)))) \<le> 500 \<and>
   al_user_name (example_entry\<lparr>al_user_name := Some ''Sistema''\<rparr>) = Some ''Sistema'' \<and>
   ap_logs (snd (fetchData (Some (Backend_error ''Failed to fetch'')) None (Some ''a1'')
     (world_of example_database, initial_audit_page))) = []"
proof -
  have mem: "example_entry\<lparr>al_user_name := Some ''Sistema''\<rparr> \<in> set (ap_logs (snd
     (fetchData None None (Some ''a1'') (world_of example_database, initial_audit_page))))"
    by (simp add: example_fetchData)
  have no_actor: "al_user_id (example_entry\<lparr>al_user_name := Some ''Sistema''\<rparr>) = None"
    by (simp add: example_entry_def)
  have empty: "ap_logs initial_audit_page = []"
    by (simp add: initial_audit_page_def)
  show ?thesis
    using mem no_actor empty
      audit_query [of "Some ''a1''" "world_of example_database" initial_audit_page
        "Some (Backend_error ''Failed to fetch'')" None]
    by auto
qed

text \<open>
  C6 does not hold with the label \<open>"System"\<close>; the code's label is \<open>"Sistema"\<close>: for
  the example backend, read by its admin, the one entry (it has no actor id) is labelled
  \<open>"Sistema"\<close>.
\<close>

theorem audit_label_counterexample:
  "map al_user_id (ap_logs (snd
     (fetchData None None (Some ''a1'') (world_of example_database, initial_audit_page))))
     = [None] \<and>
   map al_user_name (ap_logs (snd
     (fetchData None None (Some ''a1'') (world_of example_database, initial_audit_page))))
     = [Some ''Sistema''] \<and>
   \<not> (\<forall>log \<in> set (ap_logs (snd
          (fetchData None None (Some ''a1'') (world_of example_database, initial_audit_page)))).
        al_user_id log = None \<longrightarrow> al_user_name log = Some ''System'')"
  by (simp add: example_fetchData example_entry_def)

subsection \<open>The client-side filter\<close>

lemma js_includes_sublist: "js_includes haystack needle = sublist needle haystack"
  by (induction haystack) (simp_all add: sublist_Cons_right)

lemma truthy_matchesSearch:
  "truthy (matchesSearch lc s log) =
     ((\<exists>n. al_user_name log = Some n \<and> contains_ignoring_case lc n s) \<or>
      contains_ignoring_case lc (al_table_name log) s \<or>
      (\<exists>r. al_record_id log = Some r \<and> contains_ignoring_case lc r s))"
  by (cases "al_user_name log"; cases "al_record_id log")
     (auto simp: matchesSearch_def js_or_def contains_ignoring_case_def js_includes_sublist)

lemma truthy_js_and: "truthy (js_and a (Some b)) = (truthy a \<and> b)"
  by (cases a) (auto simp: js_and_def)

text \<open>
  C7. The client-side filter keeps exactly the entries whose actor display name, table
  name or record id contains the search term as a case-insensitive substring, and whose
  action is the action filter unless that is \<open>"all"\<close>, and whose table name is the table
  filter unless that is \<open>"all"\<close>. With an empty search term (lower-cased to the empty
  string) and both filters \<open>"all"\<close>, the filtered list is the fetched list.
\<close>

theorem filteredLogs_keeps_matching_entries:
  "filteredLogs lc logs searchTerm actionFilter tableFilter =
     filter (\<lambda>log.
        ((\<exists>n. al_user_name log = Some n \<and> contains_ignoring_case lc n searchTerm) \<or>
         contains_ignoring_case lc (al_table_name log) searchTerm \<or>
         (\<exists>r. al_record_id log = Some r \<and> contains_ignoring_case lc r searchTerm)) \<and>
        (actionFilter = ''all'' \<or> al_action log = actionFilter) \<and>
        (tableFilter = ''all'' \<or> al_table_name log = tableFilter)) logs \<and>
   (lc [] = [] \<longrightarrow> filteredLogs lc logs [] ''all'' ''all'' = logs)"
proof -
  have general: "filteredLogs lc logs s af tf =
     filter (\<lambda>log.
        ((\<exists>n. al_user_name log = Some n \<and> contains_ignoring_case lc n s) \<or>
         contains_ignoring_case lc (al_table_name log) s \<or>
         (\<exists>r. al_record_id log = Some r \<and> contains_ignoring_case lc r s)) \<and>
        (af = ''all'' \<or> al_action log = af) \<and>
        (tf = ''all'' \<or> al_table_name log = tf)) logs" for s af tf
    by (simp add: filteredLogs_def Let_def truthy_js_and truthy_matchesSearch conj_assoc)
  have "filteredLogs lc logs [] ''all'' ''all'' = logs" if "lc [] = []"
    using that by (simp add: general contains_ignoring_case_def)
  with general show ?thesis
    by blast
qed

theorem filteredLogs_keeps_matching_entries_witness:
  "ascii_lower [] = [] \<and>
   filteredLogs ascii_lower [example_entry, example_entry\<lparr>al_action := ''DELETE''\<rparr>]
     [] ''all'' ''all'' = [example_entry, example_entry\<lparr>al_action := ''DELETE''\<rparr>]"
proof -
  have empty: "ascii_lower [] = []"
    by (simp add: ascii_lower_def)
  with filteredLogs_keeps_matching_entries
         [of ascii_lower "[example_entry, example_entry\<lparr>al_action := ''DELETE''\<rparr>]"]
  show ?thesis
    by blast
qed

section \<open>Failed mutations\<close>

lemma storage_remove_documents:
  "storage_remove f db actor path = Inr db1 \<Longrightarrow> db_documents db1 = db_documents db"
  by (auto simp: storage_remove_def split: option.splits)

lemma storage_upload_effect:
  "storage_upload f db actor path = Inr db1 \<Longrightarrow>
     db_documents db1 = db_documents db \<and> db_storage db1 = db_storage db @ [path]"
  by (auto simp: storage_upload_def split: option.splits if_splits)

lemma handleDelete_storage_failure:
  assumes "storage_remove f_storage (w_db w) (actor_of user) (d_file_path doc) = Inl e"
  shows "handleDelete True f_storage f_db user doc (w, pg) =
           (toast_error (message_or e ''Erro ao excluir documento'')
              (console_error ''Error deleting document:''
                 (send (Storage_remove_request (d_file_path doc)) w)),
            pg\<lparr>deleting := None\<rparr>)"
  using assms by (simp add: handleDelete_def Let_def send_def handleDelete_failed_def)

lemma handleDelete_database_failure:
  assumes "storage_remove f_storage (w_db w) (actor_of user) (d_file_path doc) = Inr db1"
    and "delete_document f_db db1 (actor_of user) (d_id doc) = Inl e"
  shows "handleDelete True f_storage f_db user doc (w, pg) =
           (toast_error (message_or e ''Erro ao excluir documento'')
              (console_error ''Error deleting document:''
                 (send (Delete_document_request (d_id doc))
                    (send (Storage_remove_request (d_file_path doc)) w\<lparr>w_db := db1\<rparr>))),
            pg\<lparr>deleting := None\<rparr>)"
  using assms by (simp add: handleDelete_def Let_def send_def handleDelete_failed_def)

lemma handleUpload_storage_failure:
  assumes "f_type file = ''application/pdf''" and "f_size file \<le> 50 * 1024 * 1024"
    and "storage_upload f_upload (w_db w) (actor_of user)
           (contractId @ ''/'' @ timestamp @ ''_'' @ f_name file) = Inl e"
  shows "handleUpload (Some file) timestamp new_id now f_upload f_insert f_select user contractId
           (w, pg) =
           (toast_error (message_or e ''Erro ao enviar documento'')
              (console_error ''Error uploading document:''
                 (send (Storage_upload_request
                          (contractId @ ''/'' @ timestamp @ ''_'' @ f_name file)) w)),
            pg\<lparr>uploading := False\<rparr>)"
  using assms by (simp add: handleUpload_def Let_def send_def handleUpload_failed_def)

lemma handleUpload_database_failure:
  assumes "f_type file = ''application/pdf''" and "f_size file \<le> 50 * 1024 * 1024"
    and "storage_upload f_upload (w_db w) (actor_of user)
           (contractId @ ''/'' @ timestamp @ ''_'' @ f_name file) = Inr db1"
    and "insert_document f_insert db1 (actor_of user)
           \<lparr>d_id = new_id, d_contract_id = contractId, d_file_name = f_name file,
            d_file_path = contractId @ ''/'' @ timestamp @ ''_'' @ f_name file,
            d_file_type = Some (f_type file), d_file_size = Some (int (f_size file)),
            d_extracted_data = None, d_uploaded_by = user, d_created_at = now\<rparr> = Inl e"
  shows "handleUpload (Some file) timestamp new_id now f_upload f_insert f_select user contractId
           (w, pg) =
           (toast_error (message_or e ''Erro ao enviar documento'')
              (console_error ''Error uploading document:''
                 (send (Insert_document_request
                          (contractId @ ''/'' @ timestamp @ ''_'' @ f_name file))
                    (send (Storage_upload_request
                             (contractId @ ''/'' @ timestamp @ ''_'' @ f_name file)) w
                       \<lparr>w_db := db1\<rparr>))),
            pg\<lparr>uploading := False\<rparr>)"
  using assms by (simp add: handleUpload_def Let_def send_def handleUpload_failed_def)

lemma handleRoleChange_failure:
  assumes "selectedUser pg = Some su" and "newRole pg = Some nr"
    and "update_user_roles f_update (w_db w) (actor_of user) nr (u_user_id su) = Inl e"
  shows "handleRoleChange f_update f_profiles f_roles user (w, pg) =
           (toast_error ''Erro ao atualizar permissao''
              (console_error ''Error updating role:''
                 (send (Update_user_roles_request (u_user_id su) nr) w)),
            pg\<lparr>updating := False\<rparr>)"
  using assms by (simp add: handleRoleChange_def Let_def send_def)

lemma storage_remove_storage:
  "storage_remove f db actor path = Inr db1 \<Longrightarrow>
     db_storage db1 =
       filter (\<lambda>p. \<not> (p = path \<and> rls_allows (db_user_roles db) actor Storage_objects DELETE
                                    storage_row)) (db_storage db)"
  by (auto simp: storage_remove_def split: option.splits)

lemma SupplierForm_insert_failure:
  assumes "insert_row fault (w_db w) (actor_of user) Suppliers defaults
             (supplierData validData True user) = Inl e"
  shows "SupplierForm_handleSubmit True (Inr validData) True row_id user defaults now fault (w, pg) =
           (toast_error ''Erro ao salvar fornecedor. Tente novamente.''
              (console_error ''Error saving supplier:''
                 (send (Insert_request Suppliers (supplierData validData True user)) w)),
            pg\<lparr>sf_saving := False\<rparr>)"
  using assms
  by (simp add: SupplierForm_handleSubmit_def Let_def send_def SupplierForm_failed_def)

lemma SupplierForm_update_failure:
  assumes "update_rows fault (w_db w) (actor_of user) Suppliers now
             (supplierData validData False user) row_id = Inl e"
  shows "SupplierForm_handleSubmit True (Inr validData) False row_id user defaults now fault (w, pg) =
           (toast_error ''Erro ao salvar fornecedor. Tente novamente.''
              (console_error ''Error saving supplier:''
                 (send (Update_request Suppliers (supplierData validData False user) row_id) w)),
            pg\<lparr>sf_saving := False\<rparr>)"
  using assms
  by (simp add: SupplierForm_handleSubmit_def Let_def send_def SupplierForm_failed_def)

lemma ContractForm_insert_failure:
  assumes "insert_row fault (w_db w) (actor_of user) Contracts defaults
             (contractData parseFloat validData True user) = Inl e"
  shows "ContractForm_handleSubmit parseFloat True (Inr validData) True row_id user defaults now
           fault (w, pg) =
           (toast_error ''Erro ao salvar contrato. Tente novamente.''
              (console_error ''Error saving contract:''
                 (send (Insert_request Contracts (contractData parseFloat validData True user)) w)),
            pg\<lparr>cf_saving := False\<rparr>)"
  using assms
  by (simp add: ContractForm_handleSubmit_def Let_def send_def ContractForm_failed_def)

lemma ContractForm_update_failure:
  assumes "update_rows fault (w_db w) (actor_of user) Contracts now
             (contractData parseFloat validData False user) row_id = Inl e"
  shows "ContractForm_handleSubmit parseFloat True (Inr validData) False row_id user defaults now
           fault (w, pg) =
           (toast_error ''Erro ao salvar contrato. Tente novamente.''
              (console_error ''Error saving contract:''
                 (send (Update_request Contracts (contractData parseFloat validData False user)
                          row_id) w)),
            pg\<lparr>cf_saving := False\<rparr>)"
  using assms
  by (simp add: ContractForm_handleSubmit_def Let_def send_def ContractForm_failed_def)

lemma Obligations_insert_failure:
  assumes "of_contract_id (ob_formData pg) \<noteq> []" and "of_title (ob_formData pg) \<noteq> []"
    and "of_obligation_type (ob_formData pg) \<noteq> []" and "of_due_date (ob_formData pg) \<noteq> []"
    and "insert_row f_insert (w_db w) (actor_of user) Obligations defaults
           (obligationPayload (ob_formData pg) user) = Inl e"
  shows "Obligations_handleSubmit user defaults f_insert f_select (w, pg) =
           (toast_error ''Erro ao cadastrar obrigacao''
              (console_error ''Error creating obligation:''
                 (send (Insert_request Obligations (obligationPayload (ob_formData pg) user)) w)),
            pg\<lparr>ob_saving := False\<rparr>)"
  using assms by (simp add: Obligations_handleSubmit_def Let_def send_def)

lemma markAsCompleted_failure:
  assumes "update_rows f_update (w_db w) (actor_of user) Obligations now
             (completedPayload now_iso) (Some row_id) = Inl e"
  shows "markAsCompleted row_id now_iso now f_update f_select user (w, pg) =
           (toast_error ''Erro ao atualizar obrigacao''
              (console_error ''Error updating obligation:''
                 (send (Update_request Obligations (completedPayload now_iso) (Some row_id)) w)),
            pg)"
  using assms by (simp add: markAsCompleted_def Let_def send_def)

lemma Payments_insert_failure:
  assumes "pf_contract_id (pay_formData pg) \<noteq> []" and "pf_amount (pay_formData pg) \<noteq> []"
    and "pf_due_date (pay_formData pg) \<noteq> []"
    and "parseFloat (digits_of (pf_amount (pay_formData pg))) = Some (m, k)" and "0 < m"
    and "insert_row f_insert (w_db w) (actor_of user) Payments defaults
           (paymentPayload (pay_formData pg) (m, k + 2) user) = Inl e"
  shows "Payments_handleSubmit parseFloat user defaults f_insert f_select (w, pg) =
           (toast_error ''Erro ao cadastrar pagamento''
              (console_error ''Error creating payment:''
                 (send (Insert_request Payments
                          (paymentPayload (pay_formData pg) (m, k + 2) user)) w)),
            pg\<lparr>pay_saving := False\<rparr>)"
  using assms by (simp add: Payments_handleSubmit_def Let_def send_def)

lemma markAsPaid_failure:
  assumes "update_rows f_update (w_db w) (actor_of user) Payments now
             (paidPayload now_iso) (Some row_id) = Inl e"
  shows "markAsPaid row_id now_iso now f_update f_select user (w, pg) =
           (toast_error ''Erro ao atualizar pagamento''
              (console_error ''Error updating payment:''
                 (send (Update_request Payments (paidPayload now_iso) (Some row_id)) w)),
            pg)"
  using assms by (simp add: markAsPaid_def Let_def send_def)

lemma surfaced_and_intact_failed:
  "surfaced_and_intact w message (toast_error message (console_error label (send r w)))"
  by (simp add: surfaced_and_intact_def toast_error_def console_error_def send_def)

lemma surfaced_after_first_call_failed:
  "surfaced_after_first_call w db1 message
     (toast_error message (console_error label (send r2 (send r1 w\<lparr>w_db := db1\<rparr>))))"
  by (simp add: surfaced_after_first_call_def toast_error_def console_error_def send_def)

lemma example_storage_remove:
  "storage_remove None (w_db (world_of example_database)) (actor_of (Some ''a1''))
     (d_file_path example_document) = Inr (example_database\<lparr>db_storage := []\<rparr>)"
proof -
  have admin: "rls_allows (single_role ''a1'' Admin) (Authenticated ''a1'') Storage_objects DELETE
      storage_row"
    by (simp add: rls_allows_matrix storage_row_def del: rls_allows.simps)
  then show ?thesis
    by (simp add: storage_remove_def world_of_def example_database_def example_document_def
        actor_of_def del: rls_allows.simps)
qed

lemma example_delete_document:
  "delete_document (Some (Backend_error ''Failed to fetch''))
     (example_database\<lparr>db_storage := []\<rparr>) (actor_of (Some ''a1'')) (d_id example_document)
     = Inl (Backend_error ''Failed to fetch'')"
  by (simp add: delete_document_def)

lemma example_handleDelete:
  "handleDelete True None (Some (Backend_error ''Failed to fetch'')) (Some ''a1'')
     example_document (world_of example_database, initial_upload_page\<lparr>documents := [example_document]\<rparr>) =
   (\<lparr>w_db = example_database\<lparr>db_storage := []\<rparr>,
     w_requests = [Storage_remove_request ''c1/1700000000000_a.pdf'',
                   Delete_document_request ''d1''],
     w_toasts = [Toast_error ''Failed to fetch''],
     w_console = [''Error deleting document:''], w_navigations = []\<rparr>,
    initial_upload_page\<lparr>documents := [example_document], deleting := None\<rparr>)"
  unfolding handleDelete_database_failure [OF example_storage_remove example_delete_document]
  by (simp add: toast_error_def console_error_def send_def world_of_def message_or_def
      example_document_def)

text \<open>
  C9 does not hold for the deletion of a document: the stored object is removed, then
  the deletion of the row fails in transit. The error toast is shown, the row is still in
  the table, and the object is gone: the first step has taken effect.
\<close>

theorem partial_delete_counterexample:
  "db_storage (w_db (world_of example_database)) = [''c1/1700000000000_a.pdf''] \<and>
   db_storage (w_db (fst (handleDelete True None (Some (Backend_error ''Failed to fetch''))
     (Some ''a1'') example_document
     (world_of example_database, initial_upload_page\<lparr>documents := [example_document]\<rparr>)))) = [] \<and>
   db_documents (w_db (fst (handleDelete True None (Some (Backend_error ''Failed to fetch''))
     (Some ''a1'') example_document
     (world_of example_database, initial_upload_page\<lparr>documents := [example_document]\<rparr>))))
     = [example_document] \<and>
   w_toasts (fst (handleDelete True None (Some (Backend_error ''Failed to fetch''))
     (Some ''a1'') example_document
     (world_of example_database, initial_upload_page\<lparr>documents := [example_document]\<rparr>)))
     = [Toast_error ''Failed to fetch'']"
proof -
  have before: "db_storage (w_db (world_of example_database)) = [''c1/1700000000000_a.pdf'']"
    by (simp add: world_of_def example_database_def)
  show ?thesis
    unfolding example_handleDelete using before
    by (simp add: example_database_def)
qed

text \<open>
  C9, as the code has it, for every mutation that the application issues: saving a
  supplier or a contract (insert or update), creating an obligation or a payment, marking
  an obligation as completed or a payment as paid, changing a role, uploading and
  deleting a document. When a backend call of the mutation fails, the error message is
  surfaced and the page's state is as before, but for the busy flag that is reset. For
  the mutations of one call, and when the first call of an upload or a deletion fails,
  the backend is as before. When the second call of a deletion or an upload fails, the
  first call's effect stays: the backend is in the state that the first call left, with
  the stored object removed (when the delete policy allows the actor) or added, and the
  table \<open>documents\<close> as before.
\<close>

theorem failed_mutation_effects:
  "(insert_row fault (w_db w) (actor_of user) Suppliers defaults
      (supplierData supplier True user) = Inl e \<longrightarrow>
      surfaced_and_intact w ''Erro ao salvar fornecedor. Tente novamente.''
        (fst (SupplierForm_handleSubmit True (Inr supplier) True row_id user defaults now fault
                (w, spg))) \<and>
      snd (SupplierForm_handleSubmit True (Inr supplier) True row_id user defaults now fault
             (w, spg)) = spg\<lparr>sf_saving := False\<rparr>) \<and>
   (update_rows fault (w_db w) (actor_of user) Suppliers now
      (supplierData supplier False user) row_id = Inl e \<longrightarrow>
      surfaced_and_intact w ''Erro ao salvar fornecedor. Tente novamente.''
        (fst (SupplierForm_handleSubmit True (Inr supplier) False row_id user defaults now fault
                (w, spg))) \<and>
      snd (SupplierForm_handleSubmit True (Inr supplier) False row_id user defaults now fault
             (w, spg)) = spg\<lparr>sf_saving := False\<rparr>) \<and>
   (insert_row fault (w_db w) (actor_of user) Contracts defaults
      (contractData parseFloat contract True user) = Inl e \<longrightarrow>
      surfaced_and_intact w ''Erro ao salvar contrato. Tente novamente.''
        (fst (ContractForm_handleSubmit parseFloat True (Inr contract) True row_id user defaults
                now fault (w, cpg))) \<and>
      snd (ContractForm_handleSubmit parseFloat True (Inr contract) True row_id user defaults
             now fault (w, cpg)) = cpg\<lparr>cf_saving := False\<rparr>) \<and>
   (update_rows fault (w_db w) (actor_of user) Contracts now
      (contractData parseFloat contract False user) row_id = Inl e \<longrightarrow>
      surfaced_and_intact w ''Erro ao salvar contrato. Tente novamente.''
        (fst (ContractForm_handleSubmit parseFloat True (Inr contract) False row_id user defaults
                now fault (w, cpg))) \<and>
      snd (ContractForm_handleSubmit parseFloat True (Inr contract) False row_id user defaults
             now fault (w, cpg)) = cpg\<lparr>cf_saving := False\<rparr>) \<and>
   (of_contract_id (ob_formData opg) \<noteq> [] \<and> of_title (ob_formData opg) \<noteq> [] \<and>
    of_obligation_type (ob_formData opg) \<noteq> [] \<and> of_due_date (ob_formData opg) \<noteq> [] \<and>
    insert_row fault (w_db w) (actor_of user) Obligations defaults
      (obligationPayload (ob_formData opg) user) = Inl e \<longrightarrow>
      surfaced_and_intact w ''Erro ao cadastrar obrigacao''
        (fst (Obligations_handleSubmit user defaults fault f_select (w, opg))) \<and>
      snd (Obligations_handleSubmit user defaults fault f_select (w, opg)) =
        opg\<lparr>ob_saving := False\<rparr>) \<and>
   (update_rows fault (w_db w) (actor_of user) Obligations now
      (completedPayload now_iso) (Some target) = Inl e \<longrightarrow>
      surfaced_and_intact w ''Erro ao atualizar obrigacao''
        (fst (markAsCompleted target now_iso now fault f_select user (w, opg))) \<and>
      snd (markAsCompleted target now_iso now fault f_select user (w, opg)) = opg) \<and>
   (pf_contract_id (pay_formData ppg) \<noteq> [] \<and> pf_amount (pay_formData ppg) \<noteq> [] \<and>
    pf_due_date (pay_formData ppg) \<noteq> [] \<and>
    parseFloat (digits_of (pf_amount (pay_formData ppg))) = Some (m, k) \<and> 0 < m \<and>
    insert_row fault (w_db w) (actor_of user) Payments defaults
      (paymentPayload (pay_formData ppg) (m, k + 2) user) = Inl e \<longrightarrow>
      surfaced_and_intact w ''Erro ao cadastrar pagamento''
        (fst (Payments_handleSubmit parseFloat user defaults fault f_select (w, ppg))) \<and>
      snd (Payments_handleSubmit parseFloat user defaults fault f_select (w, ppg)) =
        ppg\<lparr>pay_saving := False\<rparr>) \<and>
   (update_rows fault (w_db w) (actor_of user) Payments now
      (paidPayload now_iso) (Some target) = Inl e \<longrightarrow>
      surfaced_and_intact w ''Erro ao atualizar pagamento''
        (fst (markAsPaid target now_iso now fault f_select user (w, ppg))) \<and>
      snd (markAsPaid target now_iso now fault f_select user (w, ppg)) = ppg) \<and>
   (selectedUser upg = Some su \<and> newRole upg = Some nr \<and>
    update_user_roles fault (w_db w) (actor_of user) nr (u_user_id su) = Inl e \<longrightarrow>
      surfaced_and_intact w ''Erro ao atualizar permissao''
        (fst (handleRoleChange fault f_profiles f_roles user (w, upg))) \<and>
      snd (handleRoleChange fault f_profiles f_roles user (w, upg)) = upg\<lparr>updating := False\<rparr>) \<and>
   (storage_remove f_storage (w_db w) (actor_of user) (d_file_path doc) = Inl e \<longrightarrow>
      surfaced_and_intact w (message_or e ''Erro ao excluir documento'')
        (fst (handleDelete True f_storage f_db user doc (w, pg))) \<and>
      snd (handleDelete True f_storage f_db user doc (w, pg)) = pg\<lparr>deleting := None\<rparr>) \<and>
   (storage_remove f_storage (w_db w) (actor_of user) (d_file_path doc) = Inr db_mid \<and>
    delete_document f_db db_mid (actor_of user) (d_id doc) = Inl e \<longrightarrow>
      surfaced_after_first_call w db_mid (message_or e ''Erro ao excluir documento'')
        (fst (handleDelete True f_storage f_db user doc (w, pg))) \<and>
      snd (handleDelete True f_storage f_db user doc (w, pg)) = pg\<lparr>deleting := None\<rparr> \<and>
      db_documents db_mid = db_documents (w_db w) \<and>
      db_storage db_mid =
        filter (\<lambda>p. \<not> (p = d_file_path doc \<and>
                         rls_allows (db_user_roles (w_db w)) (actor_of user) Storage_objects DELETE
                           storage_row))
          (db_storage (w_db w)) \<and>
      (rls_allows (db_user_roles (w_db w)) (actor_of user) Storage_objects DELETE storage_row
         \<longrightarrow> d_file_path doc \<notin> set (db_storage db_mid))) \<and>
   (f_type file = ''application/pdf'' \<and> f_size file \<le> 50 * 1024 * 1024 \<and>
    storage_upload f_upload (w_db w) (actor_of user)
      (contractId @ ''/'' @ timestamp @ ''_'' @ f_name file) = Inl e \<longrightarrow>
      surfaced_and_intact w (message_or e ''Erro ao enviar documento'')
        (fst (handleUpload (Some file) timestamp new_id created f_upload f_insert f_select user
                contractId (w, pg))) \<and>
      snd (handleUpload (Some file) timestamp new_id created f_upload f_insert f_select user
             contractId (w, pg)) = pg\<lparr>uploading := False\<rparr>) \<and>
   (f_type file = ''application/pdf'' \<and> f_size file \<le> 50 * 1024 * 1024 \<and>
    storage_upload f_upload (w_db w) (actor_of user)
      (contractId @ ''/'' @ timestamp @ ''_'' @ f_name file) = Inr db_mid \<and>
    insert_document f_insert db_mid (actor_of user)
      \<lparr>d_id = new_id, d_contract_id = contractId, d_file_name = f_name file,
       d_file_path = contractId @ ''/'' @ timestamp @ ''_'' @ f_name file,
       d_file_type = Some (f_type file), d_file_size = Some (int (f_size file)),
       d_extracted_data = None, d_uploaded_by = user, d_created_at = created\<rparr> = Inl e \<longrightarrow>
      surfaced_after_first_call w db_mid (message_or e ''Erro ao enviar documento'')
        (fst (handleUpload (Some file) timestamp new_id created f_upload f_insert f_select user
                contractId (w, pg))) \<and>
      snd (handleUpload (Some file) timestamp new_id created f_upload f_insert f_select user
             contractId (w, pg)) = pg\<lparr>uploading := False\<rparr> \<and>
      db_storage db_mid =
        db_storage (w_db w) @ [contractId @ ''/'' @ timestamp @ ''_'' @ f_name file] \<and>
      db_documents db_mid = db_documents (w_db w))"
proof -
  have supplier_insert: "surfaced_and_intact w ''Erro ao salvar fornecedor. Tente novamente.''
        (fst (SupplierForm_handleSubmit True (Inr supplier) True row_id user defaults now fault
                (w, spg))) \<and>
      snd (SupplierForm_handleSubmit True (Inr supplier) True row_id user defaults now fault
             (w, spg)) = spg\<lparr>sf_saving := False\<rparr>"
    if "insert_row fault (w_db w) (actor_of user) Suppliers defaults
          (supplierData supplier True user) = Inl e"
    by (simp add: SupplierForm_insert_failure [OF that] surfaced_and_intact_failed)
  have supplier_update: "surfaced_and_intact w ''Erro ao salvar fornecedor. Tente novamente.''
        (fst (SupplierForm_handleSubmit True (Inr supplier) False row_id user defaults now fault
                (w, spg))) \<and>
      snd (SupplierForm_handleSubmit True (Inr supplier) False row_id user defaults now fault
             (w, spg)) = spg\<lparr>sf_saving := False\<rparr>"
    if "update_rows fault (w_db w) (actor_of user) Suppliers now
          (supplierData supplier False user) row_id = Inl e"
    by (simp add: SupplierForm_update_failure [OF that] surfaced_and_intact_failed)
  have contract_insert: "surfaced_and_intact w ''Erro ao salvar contrato. Tente novamente.''
        (fst (ContractForm_handleSubmit parseFloat True (Inr contract) True row_id user defaults
                now fault (w, cpg))) \<and>
      snd (ContractForm_handleSubmit parseFloat True (Inr contract) True row_id user defaults
             now fault (w, cpg)) = cpg\<lparr>cf_saving := False\<rparr>"
    if "insert_row fault (w_db w) (actor_of user) Contracts defaults
          (contractData parseFloat contract True user) = Inl e"
    by (simp add: ContractForm_insert_failure [OF that] surfaced_and_intact_failed)
  have contract_update: "surfaced_and_intact w ''Erro ao salvar contrato. Tente novamente.''
        (fst (ContractForm_handleSubmit parseFloat True (Inr contract) False row_id user defaults
                now fault (w, cpg))) \<and>
      snd (ContractForm_handleSubmit parseFloat True (Inr contract) False row_id user defaults
             now fault (w, cpg)) = cpg\<lparr>cf_saving := False\<rparr>"
    if "update_rows fault (w_db w) (actor_of user) Contracts now
          (contractData parseFloat contract False user) row_id = Inl e"
    by (simp add: ContractForm_update_failure [OF that] surfaced_and_intact_failed)
  have obligation_insert: "surfaced_and_intact w ''Erro ao cadastrar obrigacao''
        (fst (Obligations_handleSubmit user defaults fault f_select (w, opg))) \<and>
      snd (Obligations_handleSubmit user defaults fault f_select (w, opg)) =
        opg\<lparr>ob_saving := False\<rparr>"
    if "of_contract_id (ob_formData opg) \<noteq> []" and "of_title (ob_formData opg) \<noteq> []"
      and "of_obligation_type (ob_formData opg) \<noteq> []" and "of_due_date (ob_formData opg) \<noteq> []"
      and "insert_row fault (w_db w) (actor_of user) Obligations defaults
        (obligationPayload (ob_formData opg) user) = Inl e"
    by (simp add: Obligations_insert_failure [OF that] surfaced_and_intact_failed)
  have completed: "surfaced_and_intact w ''Erro ao atualizar obrigacao''
        (fst (markAsCompleted target now_iso now fault f_select user (w, opg))) \<and>
      snd (markAsCompleted target now_iso now fault f_select user (w, opg)) = opg"
    if "update_rows fault (w_db w) (actor_of user) Obligations now
          (completedPayload now_iso) (Some target) = Inl e"
    by (simp add: markAsCompleted_failure [OF that] surfaced_and_intact_failed)
  have payment_insert: "surfaced_and_intact w ''Erro ao cadastrar pagamento''
        (fst (Payments_handleSubmit parseFloat user defaults fault f_select (w, ppg))) \<and>
      snd (Payments_handleSubmit parseFloat user defaults fault f_select (w, ppg)) =
        ppg\<lparr>pay_saving := False\<rparr>"
    if "pf_contract_id (pay_formData ppg) \<noteq> []" and "pf_amount (pay_formData ppg) \<noteq> []"
      and "pf_due_date (pay_formData ppg) \<noteq> []"
      and "parseFloat (digits_of (pf_amount (pay_formData ppg))) = Some (m, k)" and "0 < m"
      and "insert_row fault (w_db w) (actor_of user) Payments defaults
        (paymentPayload (pay_formData ppg) (m, k + 2) user) = Inl e"
    by (simp add: Payments_insert_failure [where parseFloat = parseFloat, OF that]
        surfaced_and_intact_failed)
  have paid: "surfaced_and_intact w ''Erro ao atualizar pagamento''
        (fst (markAsPaid target now_iso now fault f_select user (w, ppg))) \<and>
      snd (markAsPaid target now_iso now fault f_select user (w, ppg)) = ppg"
    if "update_rows fault (w_db w) (actor_of user) Payments now
          (paidPayload now_iso) (Some target) = Inl e"
    by (simp add: markAsPaid_failure [OF that] surfaced_and_intact_failed)
  have role: "surfaced_and_intact w ''Erro ao atualizar permissao''
        (fst (handleRoleChange fault f_profiles f_roles user (w, upg))) \<and>
      snd (handleRoleChange fault f_profiles f_roles user (w, upg)) = upg\<lparr>updating := False\<rparr>"
    if "selectedUser upg = Some su" and "newRole upg = Some nr"
      and "update_user_roles fault (w_db w) (actor_of user) nr (u_user_id su) = Inl e"
    by (simp add: handleRoleChange_failure [OF that] surfaced_and_intact_failed)
  have del1: "surfaced_and_intact w (message_or e ''Erro ao excluir documento'')
        (fst (handleDelete True f_storage f_db user doc (w, pg))) \<and>
      snd (handleDelete True f_storage f_db user doc (w, pg)) = pg\<lparr>deleting := None\<rparr>"
    if "storage_remove f_storage (w_db w) (actor_of user) (d_file_path doc) = Inl e"
    by (simp add: handleDelete_storage_failure [OF that] surfaced_and_intact_failed)
  have del2: "surfaced_after_first_call w db_mid (message_or e ''Erro ao excluir documento'')
        (fst (handleDelete True f_storage f_db user doc (w, pg))) \<and>
      snd (handleDelete True f_storage f_db user doc (w, pg)) = pg\<lparr>deleting := None\<rparr> \<and>
      db_documents db_mid = db_documents (w_db w) \<and>
      db_storage db_mid =
        filter (\<lambda>p. \<not> (p = d_file_path doc \<and>
                         rls_allows (db_user_roles (w_db w)) (actor_of user) Storage_objects DELETE
                           storage_row))
          (db_storage (w_db w)) \<and>
      (rls_allows (db_user_roles (w_db w)) (actor_of user) Storage_objects DELETE storage_row
         \<longrightarrow> d_file_path doc \<notin> set (db_storage db_mid))"
    if "storage_remove f_storage (w_db w) (actor_of user) (d_file_path doc) = Inr db_mid"
      and "delete_document f_db db_mid (actor_of user) (d_id doc) = Inl e"
    using storage_remove_documents [OF that(1)] storage_remove_storage [OF that(1)]
    by (simp add: handleDelete_database_failure [OF that] surfaced_after_first_call_failed
        del: rls_allows.simps)
  have up1: "surfaced_and_intact w (message_or e ''Erro ao enviar documento'')
        (fst (handleUpload (Some file) timestamp new_id created f_upload f_insert f_select user
                contractId (w, pg))) \<and>
      snd (handleUpload (Some file) timestamp new_id created f_upload f_insert f_select user
             contractId (w, pg)) = pg\<lparr>uploading := False\<rparr>"
    if "f_type file = ''application/pdf''" and "f_size file \<le> 50 * 1024 * 1024"
      and "storage_upload f_upload (w_db w) (actor_of user)
        (contractId @ ''/'' @ timestamp @ ''_'' @ f_name file) = Inl e"
    by (simp add: handleUpload_storage_failure [OF that] surfaced_and_intact_failed)
  have up2: "surfaced_after_first_call w db_mid (message_or e ''Erro ao enviar documento'')
        (fst (handleUpload (Some file) timestamp new_id created f_upload f_insert f_select user
                contractId (w, pg))) \<and>
      snd (handleUpload (Some file) timestamp new_id created f_upload f_insert f_select user
             contractId (w, pg)) = pg\<lparr>uploading := False\<rparr> \<and>
      db_storage db_mid =
        db_storage (w_db w) @ [contractId @ ''/'' @ timestamp @ ''_'' @ f_name file] \<and>
      db_documents db_mid = db_documents (w_db w)"
    if "f_type file = ''application/pdf''" and "f_size file \<le> 50 * 1024 * 1024"
      and "storage_upload f_upload (w_db w) (actor_of user)
        (contractId @ ''/'' @ timestamp @ ''_'' @ f_name file) = Inr db_mid"
      and "insert_document f_insert db_mid (actor_of user)
        \<lparr>d_id = new_id, d_contract_id = contractId, d_file_name = f_name file,
         d_file_path = contractId @ ''/'' @ timestamp @ ''_'' @ f_name file,
         d_file_type = Some (f_type file), d_file_size = Some (int (f_size file)),
         d_extracted_data = None, d_uploaded_by = user, d_created_at = created\<rparr> = Inl e"
    using storage_upload_effect [OF that(3)]
    by (simp add: handleUpload_database_failure [OF that] surfaced_after_first_call_failed)
  show ?thesis
    by (intro conjI; rule impI; (elim conjE)?;
        (rule supplier_insert supplier_update contract_insert contract_update
           obligation_insert completed payment_insert paid role del1 del2 up1 up2; assumption))
qed

theorem failed_mutation_effects_witness:
  "(let r = SupplierForm_handleSubmit True (Inr example_supplier) True None (Some ''a1'') [] ''t9''
        (Some (Backend_error ''Failed to fetch'')) ((world_of example_database), initial_supplier_form)
    in w_db (fst r) = example_database \<and>
       w_toasts (fst r) = [Toast_error ''Erro ao salvar fornecedor. Tente novamente.''] \<and>
       snd r = initial_supplier_form) \<and>
   (let r = SupplierForm_handleSubmit True (Inr example_supplier) False (Some ''s1'') (Some ''a1'') []
        ''t9'' (Some (Backend_error ''Failed to fetch'')) ((world_of example_database), initial_supplier_form)
    in w_db (fst r) = example_database \<and>
       w_toasts (fst r) = [Toast_error ''Erro ao salvar fornecedor. Tente novamente.''] \<and>
       snd r = initial_supplier_form) \<and>
   (let r = ContractForm_handleSubmit example_parseFloat True (Inr example_contract) True None
        (Some ''a1'') [] ''t9'' (Some (Backend_error ''Failed to fetch'')) ((world_of example_database), initial_contract_form)
    in w_db (fst r) = example_database \<and>
       w_toasts (fst r) = [Toast_error ''Erro ao salvar contrato. Tente novamente.''] \<and>
       snd r = initial_contract_form) \<and>
   (let r = ContractForm_handleSubmit example_parseFloat True (Inr example_contract) False (Some ''c1'')
        (Some ''a1'') [] ''t9'' (Some (Backend_error ''Failed to fetch'')) ((world_of example_database), initial_contract_form)
    in w_db (fst r) = example_database \<and>
       w_toasts (fst r) = [Toast_error ''Erro ao salvar contrato. Tente novamente.''] \<and>
       snd r = initial_contract_form) \<and>
   (let r = Obligations_handleSubmit (Some ''a1'') [] (Some (Backend_error ''Failed to fetch'')) None ((world_of example_database), example_obligations_page)
    in w_db (fst r) = example_database \<and>
       w_toasts (fst r) = [Toast_error ''Erro ao cadastrar obrigacao''] \<and>
       snd r = example_obligations_page) \<and>
   (let r = markAsCompleted ''o1'' ''2026-11-02T10:00:00.000Z'' ''t9'' (Some (Backend_error ''Failed to fetch'')) None (Some ''a1'')
        ((world_of example_database), example_obligations_page)
    in w_db (fst r) = example_database \<and>
       w_toasts (fst r) = [Toast_error ''Erro ao atualizar obrigacao''] \<and>
       snd r = example_obligations_page) \<and>
   (let r = Payments_handleSubmit example_parseFloat (Some ''a1'') [] (Some (Backend_error ''Failed to fetch'')) None
        ((world_of example_database), example_payments_page)
    in w_db (fst r) = example_database \<and>
       w_toasts (fst r) = [Toast_error ''Erro ao cadastrar pagamento''] \<and>
       snd r = example_payments_page) \<and>
   (let r = markAsPaid ''y1'' ''2026-11-02T10:00:00.000Z'' ''t9'' (Some (Backend_error ''Failed to fetch'')) None (Some ''a1'')
        ((world_of example_database), example_payments_page)
    in w_db (fst r) = example_database \<and>
       w_toasts (fst r) = [Toast_error ''Erro ao atualizar pagamento''] \<and>
       snd r = example_payments_page) \<and>
   (let r = handleRoleChange (Some (Backend_error ''Failed to fetch'')) None None (Some ''a1'') ((world_of example_database), example_users_page)
    in w_db (fst r) = example_database \<and>
       w_toasts (fst r) = [Toast_error ''Erro ao atualizar permissao''] \<and>
       snd r = example_users_page) \<and>
   (let r = handleDelete True (Some (Backend_error ''Failed to fetch'')) None (Some ''a1'') example_document ((world_of example_database), (initial_upload_page\<lparr>documents := [example_document]\<rparr>))
    in w_db (fst r) = example_database \<and>
       w_toasts (fst r) = [Toast_error ''Failed to fetch''] \<and>
       snd r = (initial_upload_page\<lparr>documents := [example_document]\<rparr>)) \<and>
   (let r = handleDelete True None (Some (Backend_error ''Failed to fetch'')) (Some ''a1'') example_document ((world_of example_database), (initial_upload_page\<lparr>documents := [example_document]\<rparr>))
    in w_db (fst r) = example_database\<lparr>db_storage := []\<rparr> \<and>
       w_toasts (fst r) = [Toast_error ''Failed to fetch''] \<and>
       snd r = (initial_upload_page\<lparr>documents := [example_document]\<rparr>)) \<and>
   (let r = handleUpload (Some example_file) ''1700000000001'' ''d2'' 9 (Some (Backend_error ''Failed to fetch'')) None None
        (Some ''a1'') ''c1'' ((world_of example_database), (initial_upload_page\<lparr>documents := [example_document]\<rparr>))
    in w_db (fst r) = example_database \<and>
       w_toasts (fst r) = [Toast_error ''Failed to fetch''] \<and>
       snd r = (initial_upload_page\<lparr>documents := [example_document]\<rparr>)) \<and>
   (let r = handleUpload (Some example_file) ''1700000000001'' ''d2'' 9 None (Some (Backend_error ''Failed to fetch'')) None
        (Some ''a1'') ''c1'' ((world_of example_database), (initial_upload_page\<lparr>documents := [example_document]\<rparr>))
    in w_db (fst r) = (example_database\<lparr>db_storage :=
          [''c1/1700000000000_a.pdf'', ''c1/1700000000001_b.pdf'']\<rparr>) \<and>
       w_toasts (fst r) = [Toast_error ''Failed to fetch''] \<and>
       snd r = (initial_upload_page\<lparr>documents := [example_document]\<rparr>))"
proof -
  let ?e = "Backend_error ''Failed to fetch''"
  let ?w = "world_of example_database"
  let ?pg = "initial_upload_page\<lparr>documents := [example_document]\<rparr>"
  let ?uploaded = "example_database\<lparr>db_storage :=
          [''c1/1700000000000_a.pdf'', ''c1/1700000000001_b.pdf'']\<rparr>"
  have may_upload: "rls_allows (single_role ''a1'' Admin) (Authenticated ''a1'') Storage_objects
      INSERT storage_row"
    by (simp add: rls_allows_matrix storage_row_def del: rls_allows.simps)
  have base: "w_db ?w = example_database" and quiet: "w_toasts ?w = []"
    by (simp_all add: world_of_def)
  have idle: "initial_supplier_form\<lparr>sf_saving := False\<rparr> = initial_supplier_form"
    "initial_contract_form\<lparr>cf_saving := False\<rparr> = initial_contract_form"
    "example_obligations_page\<lparr>ob_saving := False\<rparr> = example_obligations_page"
    "example_payments_page\<lparr>pay_saving := False\<rparr> = example_payments_page"
    "example_users_page\<lparr>updating := False\<rparr> = example_users_page"
    "?pg\<lparr>deleting := None\<rparr> = ?pg" "?pg\<lparr>uploading := False\<rparr> = ?pg"
    by (simp_all add: initial_supplier_form_def initial_contract_form_def
        example_obligations_page_def example_payments_page_def example_users_page_def
        initial_upload_page_def)
  have message: "message_or ?e fallback = ''Failed to fetch''" for fallback
    by (simp add: message_or_def)
  have h_supplier_insert: "insert_row (Some ?e) (w_db ?w) (actor_of (Some ''a1'')) Suppliers []
        (supplierData example_supplier True (Some ''a1'')) = Inl ?e"
    by (simp add: insert_row_def)
  note supplier_insert = failed_mutation_effects
    [where w = ?w and user = "Some ''a1''" and e = ?e
       and fault = "Some ?e" and defaults = "[]" and supplier = example_supplier and row_id = None
       and now = "''t9''" and spg = initial_supplier_form,
     THEN conjunct1, rule_format, OF h_supplier_insert]
  have h_supplier_update: "update_rows (Some ?e) (w_db ?w) (actor_of (Some ''a1'')) Suppliers ''t9''
        (supplierData example_supplier False (Some ''a1'')) (Some ''s1'') = Inl ?e"
    by (simp add: update_rows_def)
  note supplier_update = failed_mutation_effects
    [where w = ?w and user = "Some ''a1''" and e = ?e
       and fault = "Some ?e" and defaults = "[]" and supplier = example_supplier
       and row_id = "Some ''s1''" and now = "''t9''" and spg = initial_supplier_form,
     THEN conjunct2, THEN conjunct1, rule_format, OF h_supplier_update]
  have h_contract_insert: "insert_row (Some ?e) (w_db ?w) (actor_of (Some ''a1'')) Contracts []
        (contractData example_parseFloat example_contract True (Some ''a1'')) = Inl ?e"
    by (simp add: insert_row_def)
  note contract_insert = failed_mutation_effects
    [where w = ?w and user = "Some ''a1''" and e = ?e
       and fault = "Some ?e" and defaults = "[]" and contract = example_contract and row_id = None
       and now = "''t9''" and cpg = initial_contract_form and parseFloat = example_parseFloat,
     THEN conjunct2, THEN conjunct2, THEN conjunct1, rule_format, OF h_contract_insert]
  have h_contract_update: "update_rows (Some ?e) (w_db ?w) (actor_of (Some ''a1'')) Contracts ''t9''
        (contractData example_parseFloat example_contract False (Some ''a1'')) (Some ''c1'')
        = Inl ?e"
    by (simp add: update_rows_def)
  note contract_update = failed_mutation_effects
    [where w = ?w and user = "Some ''a1''" and e = ?e
       and fault = "Some ?e" and defaults = "[]" and contract = example_contract
       and row_id = "Some ''c1''" and now = "''t9''" and cpg = initial_contract_form
       and parseFloat = example_parseFloat,
     THEN conjunct2, THEN conjunct2, THEN conjunct2, THEN conjunct1, rule_format, OF h_contract_update]
  have h_obligation_insert: "of_contract_id (ob_formData example_obligations_page) \<noteq> [] \<and>
      of_title (ob_formData example_obligations_page) \<noteq> [] \<and>
      of_obligation_type (ob_formData example_obligations_page) \<noteq> [] \<and>
      of_due_date (ob_formData example_obligations_page) \<noteq> [] \<and>
      insert_row (Some ?e) (w_db ?w) (actor_of (Some ''a1'')) Obligations []
        (obligationPayload (ob_formData example_obligations_page) (Some ''a1'')) = Inl ?e"
    by (simp add: insert_row_def example_obligations_page_def)
  note obligation_insert = failed_mutation_effects
    [where w = ?w and user = "Some ''a1''" and e = ?e
       and fault = "Some ?e" and defaults = "[]" and opg = example_obligations_page and f_select = None,
     THEN conjunct2, THEN conjunct2, THEN conjunct2, THEN conjunct2, THEN conjunct1, rule_format, OF h_obligation_insert]
  have h_completed: "update_rows (Some ?e) (w_db ?w) (actor_of (Some ''a1'')) Obligations ''t9''
        (completedPayload ''2026-11-02T10:00:00.000Z'') (Some ''o1'') = Inl ?e"
    by (simp add: update_rows_def)
  note completed = failed_mutation_effects
    [where w = ?w and user = "Some ''a1''" and e = ?e
       and fault = "Some ?e" and opg = example_obligations_page and f_select = None
       and target = "''o1''" and now_iso = "''2026-11-02T10:00:00.000Z''" and now = "''t9''",
     THEN conjunct2, THEN conjunct2, THEN conjunct2, THEN conjunct2, THEN conjunct2, THEN conjunct1, rule_format, OF h_completed]
  have h_payment_insert: "pf_contract_id (pay_formData example_payments_page) \<noteq> [] \<and>
      pf_amount (pay_formData example_payments_page) \<noteq> [] \<and>
      pf_due_date (pay_formData example_payments_page) \<noteq> [] \<and>
      example_parseFloat (digits_of (pf_amount (pay_formData example_payments_page))) =
        Some (15000, 0) \<and> (0::int) < 15000 \<and>
      insert_row (Some ?e) (w_db ?w) (actor_of (Some ''a1'')) Payments []
        (paymentPayload (pay_formData example_payments_page) (15000, 0 + 2) (Some ''a1''))
        = Inl ?e"
    by (simp add: insert_row_def example_payments_page_def digits_of_def example_parseFloat_def)
  note payment_insert = failed_mutation_effects
    [where w = ?w and user = "Some ''a1''" and e = ?e
       and fault = "Some ?e" and defaults = "[]" and ppg = example_payments_page and f_select = None
       and parseFloat = example_parseFloat and m = 15000 and k = 0,
     THEN conjunct2, THEN conjunct2, THEN conjunct2, THEN conjunct2, THEN conjunct2, THEN conjunct2, THEN conjunct1, rule_format, OF h_payment_insert]
  have h_paid: "update_rows (Some ?e) (w_db ?w) (actor_of (Some ''a1'')) Payments ''t9''
        (paidPayload ''2026-11-02T10:00:00.000Z'') (Some ''y1'') = Inl ?e"
    by (simp add: update_rows_def)
  note paid = failed_mutation_effects
    [where w = ?w and user = "Some ''a1''" and e = ?e
       and fault = "Some ?e" and ppg = example_payments_page and f_select = None
       and target = "''y1''" and now_iso = "''2026-11-02T10:00:00.000Z''" and now = "''t9''",
     THEN conjunct2, THEN conjunct2, THEN conjunct2, THEN conjunct2, THEN conjunct2, THEN conjunct2, THEN conjunct2, THEN conjunct1, rule_format, OF h_paid]
  have h_role: "selectedUser example_users_page = Some example_user \<and>
      newRole example_users_page = Some Gestor \<and>
      update_user_roles (Some ?e) (w_db ?w) (actor_of (Some ''a1'')) Gestor
        (u_user_id example_user) = Inl ?e"
    by (simp add: update_user_roles_def example_users_page_def)
  note role = failed_mutation_effects
    [where w = ?w and user = "Some ''a1''" and e = ?e
       and fault = "Some ?e" and upg = example_users_page and f_profiles = None and f_roles = None
       and su = example_user and nr = Gestor,
     THEN conjunct2, THEN conjunct2, THEN conjunct2, THEN conjunct2, THEN conjunct2, THEN conjunct2, THEN conjunct2, THEN conjunct2, THEN conjunct1, rule_format, OF h_role]
  have h_first_of_delete: "storage_remove (Some ?e) (w_db ?w) (actor_of (Some ''a1'')) (d_file_path example_document)
        = Inl ?e"
    by (simp add: storage_remove_def)
  note first_of_delete = failed_mutation_effects
    [where w = ?w and user = "Some ''a1''" and e = ?e
       and f_storage = "Some ?e" and f_db = None and doc = example_document and pg = ?pg,
     THEN conjunct2, THEN conjunct2, THEN conjunct2, THEN conjunct2, THEN conjunct2, THEN conjunct2, THEN conjunct2, THEN conjunct2, THEN conjunct2, THEN conjunct1, rule_format, OF h_first_of_delete]
  have h_second_of_delete: "storage_remove None (w_db ?w) (actor_of (Some ''a1'')) (d_file_path example_document)
        = Inr (example_database\<lparr>db_storage := []\<rparr>) \<and>
      delete_document (Some ?e) (example_database\<lparr>db_storage := []\<rparr>)
        (actor_of (Some ''a1'')) (d_id example_document) = Inl ?e"
    using example_storage_remove example_delete_document by simp
  note second_of_delete = failed_mutation_effects
    [where w = ?w and user = "Some ''a1''" and e = ?e
       and f_storage = None and f_db = "Some ?e" and doc = example_document and pg = ?pg
       and db_mid = "example_database\<lparr>db_storage := []\<rparr>",
     THEN conjunct2, THEN conjunct2, THEN conjunct2, THEN conjunct2, THEN conjunct2, THEN conjunct2, THEN conjunct2, THEN conjunct2, THEN conjunct2, THEN conjunct2, THEN conjunct1, rule_format, OF h_second_of_delete]
  have h_first_of_upload: "f_type example_file = ''application/pdf'' \<and> f_size example_file \<le> 50 * 1024 * 1024 \<and>
      storage_upload (Some ?e) (w_db ?w) (actor_of (Some ''a1''))
        (''c1'' @ ''/'' @ ''1700000000001'' @ ''_'' @ f_name example_file) = Inl ?e"
    by (simp add: storage_upload_def example_file_def)
  note first_of_upload = failed_mutation_effects
    [where w = ?w and user = "Some ''a1''" and e = ?e
       and f_upload = "Some ?e" and f_insert = None and f_select = None and ?file = example_file
       and timestamp = "''1700000000001''" and new_id = "''d2''" and created = 9
       and contractId = "''c1''" and pg = ?pg,
     THEN conjunct2, THEN conjunct2, THEN conjunct2, THEN conjunct2, THEN conjunct2, THEN conjunct2, THEN conjunct2, THEN conjunct2, THEN conjunct2, THEN conjunct2, THEN conjunct2, THEN conjunct1, rule_format, OF h_first_of_upload]
  have h_second_of_upload: "f_type example_file = ''application/pdf'' \<and> f_size example_file \<le> 50 * 1024 * 1024 \<and>
      storage_upload None (w_db ?w) (actor_of (Some ''a1''))
        (''c1'' @ ''/'' @ ''1700000000001'' @ ''_'' @ f_name example_file) = Inr ?uploaded \<and>
      insert_document (Some ?e) ?uploaded (actor_of (Some ''a1''))
        \<lparr>d_id = ''d2'', d_contract_id = ''c1'', d_file_name = f_name example_file,
         d_file_path = ''c1'' @ ''/'' @ ''1700000000001'' @ ''_'' @ f_name example_file,
         d_file_type = Some (f_type example_file),
         d_file_size = Some (int (f_size example_file)),
         d_extracted_data = None, d_uploaded_by = Some ''a1'', d_created_at = 9\<rparr> = Inl ?e"
    using may_upload
    by (simp add: storage_upload_def insert_document_def example_file_def world_of_def
        example_database_def actor_of_def del: rls_allows.simps)
  note second_of_upload = failed_mutation_effects
    [where w = ?w and user = "Some ''a1''" and e = ?e
       and f_upload = None and f_insert = "Some ?e" and f_select = None and ?file = example_file
       and timestamp = "''1700000000001''" and new_id = "''d2''" and created = 9
       and contractId = "''c1''" and pg = ?pg and db_mid = ?uploaded,
     THEN conjunct2, THEN conjunct2, THEN conjunct2, THEN conjunct2, THEN conjunct2, THEN conjunct2, THEN conjunct2, THEN conjunct2, THEN conjunct2, THEN conjunct2, THEN conjunct2, THEN conjunct2, rule_format, OF h_second_of_upload]
  have c_supplier_insert: "let r = SupplierForm_handleSubmit True (Inr example_supplier) True None (Some ''a1'') [] ''t9''
        (Some ?e) (?w, initial_supplier_form)
    in w_db (fst r) = example_database \<and>
       w_toasts (fst r) = [Toast_error ''Erro ao salvar fornecedor. Tente novamente.''] \<and>
       snd r = initial_supplier_form"
    using supplier_insert base quiet idle message
    by (simp add: surfaced_and_intact_def surfaced_after_first_call_def Let_def)
  have c_supplier_update: "let r = SupplierForm_handleSubmit True (Inr example_supplier) False (Some ''s1'') (Some ''a1'') []
        ''t9'' (Some ?e) (?w, initial_supplier_form)
    in w_db (fst r) = example_database \<and>
       w_toasts (fst r) = [Toast_error ''Erro ao salvar fornecedor. Tente novamente.''] \<and>
       snd r = initial_supplier_form"
    using supplier_update base quiet idle message
    by (simp add: surfaced_and_intact_def surfaced_after_first_call_def Let_def)
  have c_contract_insert: "let r = ContractForm_handleSubmit example_parseFloat True (Inr example_contract) True None
        (Some ''a1'') [] ''t9'' (Some ?e) (?w, initial_contract_form)
    in w_db (fst r) = example_database \<and>
       w_toasts (fst r) = [Toast_error ''Erro ao salvar contrato. Tente novamente.''] \<and>
       snd r = initial_contract_form"
    using contract_insert base quiet idle message
    by (simp add: surfaced_and_intact_def surfaced_after_first_call_def Let_def)
  have c_contract_update: "let r = ContractForm_handleSubmit example_parseFloat True (Inr example_contract) False (Some ''c1'')
        (Some ''a1'') [] ''t9'' (Some ?e) (?w, initial_contract_form)
    in w_db (fst r) = example_database \<and>
       w_toasts (fst r) = [Toast_error ''Erro ao salvar contrato. Tente novamente.''] \<and>
       snd r = initial_contract_form"
    using contract_update base quiet idle message
    by (simp add: surfaced_and_intact_def surfaced_after_first_call_def Let_def)
  have c_obligation_insert: "let r = Obligations_handleSubmit (Some ''a1'') [] (Some ?e) None (?w, example_obligations_page)
    in w_db (fst r) = example_database \<and>
       w_toasts (fst r) = [Toast_error ''Erro ao cadastrar obrigacao''] \<and>
       snd r = example_obligations_page"
    using obligation_insert base quiet idle message
    by (simp add: surfaced_and_intact_def surfaced_after_first_call_def Let_def)
  have c_completed: "let r = markAsCompleted ''o1'' ''2026-11-02T10:00:00.000Z'' ''t9'' (Some ?e) None (Some ''a1'')
        (?w, example_obligations_page)
    in w_db (fst r) = example_database \<and>
       w_toasts (fst r) = [Toast_error ''Erro ao atualizar obrigacao''] \<and>
       snd r = example_obligations_page"
    using completed base quiet idle message
    by (simp add: surfaced_and_intact_def surfaced_after_first_call_def Let_def)
  have c_payment_insert: "let r = Payments_handleSubmit example_parseFloat (Some ''a1'') [] (Some ?e) None
        (?w, example_payments_page)
    in w_db (fst r) = example_database \<and>
       w_toasts (fst r) = [Toast_error ''Erro ao cadastrar pagamento''] \<and>
       snd r = example_payments_page"
    using payment_insert base quiet idle message
    by (simp add: surfaced_and_intact_def surfaced_after_first_call_def Let_def)
  have c_paid: "let r = markAsPaid ''y1'' ''2026-11-02T10:00:00.000Z'' ''t9'' (Some ?e) None (Some ''a1'')
        (?w, example_payments_page)
    in w_db (fst r) = example_database \<and>
       w_toasts (fst r) = [Toast_error ''Erro ao atualizar pagamento''] \<and>
       snd r = example_payments_page"
    using paid base quiet idle message
    by (simp add: surfaced_and_intact_def surfaced_after_first_call_def Let_def)
  have c_role: "let r = handleRoleChange (Some ?e) None None (Some ''a1'') (?w, example_users_page)
    in w_db (fst r) = example_database \<and>
       w_toasts (fst r) = [Toast_error ''Erro ao atualizar permissao''] \<and>
       snd r = example_users_page"
    using role base quiet idle message
    by (simp add: surfaced_and_intact_def surfaced_after_first_call_def Let_def)
  have c_first_of_delete: "let r = handleDelete True (Some ?e) None (Some ''a1'') example_document (?w, ?pg)
    in w_db (fst r) = example_database \<and>
       w_toasts (fst r) = [Toast_error ''Failed to fetch''] \<and>
       snd r = ?pg"
    using first_of_delete base quiet idle message
    by (simp add: surfaced_and_intact_def surfaced_after_first_call_def Let_def)
  have c_second_of_delete: "let r = handleDelete True None (Some ?e) (Some ''a1'') example_document (?w, ?pg)
    in w_db (fst r) = example_database\<lparr>db_storage := []\<rparr> \<and>
       w_toasts (fst r) = [Toast_error ''Failed to fetch''] \<and>
       snd r = ?pg"
    using second_of_delete base quiet idle message
    by (simp add: surfaced_and_intact_def surfaced_after_first_call_def Let_def)
  have c_first_of_upload: "let r = handleUpload (Some example_file) ''1700000000001'' ''d2'' 9 (Some ?e) None None
        (Some ''a1'') ''c1'' (?w, ?pg)
    in w_db (fst r) = example_database \<and>
       w_toasts (fst r) = [Toast_error ''Failed to fetch''] \<and>
       snd r = ?pg"
    using first_of_upload base quiet idle message
    by (simp add: surfaced_and_intact_def surfaced_after_first_call_def Let_def)
  have c_second_of_upload: "let r = handleUpload (Some example_file) ''1700000000001'' ''d2'' 9 None (Some ?e) None
        (Some ''a1'') ''c1'' (?w, ?pg)
    in w_db (fst r) = ?uploaded \<and>
       w_toasts (fst r) = [Toast_error ''Failed to fetch''] \<and>
       snd r = ?pg"
    using second_of_upload base quiet idle message
    by (simp add: surfaced_and_intact_def surfaced_after_first_call_def Let_def)
  show ?thesis
    by (intro conjI; (rule c_supplier_insert
      c_supplier_update
      c_contract_insert
      c_contract_update
      c_obligation_insert
      c_completed
      c_payment_insert
      c_paid
      c_role
      c_first_of_delete
      c_second_of_delete
      c_first_of_upload
      c_second_of_upload))
qed

end
